theory Spec2Isabelle
  imports Main "HOL-Library.AList"
begin

section \<open>Python values and dictionaries\<close>

text \<open>
  A Python dictionary with string keys is an association list in insertion order;
  \<open>d[k] = v\<close> is \<open>AList.update k v d\<close>, \<open>k in d\<close> is membership in the keys and
  \<open>d[k]\<close> is \<open>map_of d k\<close>.
\<close>

type_synonym 'v pydict = "(string \<times> 'v) list"

definition keys :: "'v pydict \<Rightarrow> string set" where
  "keys d = fst ` set d"

text \<open>
  The values that attributes, keyword arguments and inline declarations of
  \<open>flask_admin/model/form.py\<close> range over. \<open>PyObj mro cls d\<close> is an instance: the names of
  the classes of \<open>type(obj).__mro__\<close>, the attributes found on the class, and the
  instance's own \<open>__dict__\<close>. \<open>RuleSet rules\<close> is a rule-set object that holds the rules it
  was compiled from.
\<close>

datatype pyval =
    PyNone
  | PyBool bool
  | PyStr string
  | PyTuple "pyval list"
  | PyList "pyval list"
  | PyDict "(string \<times> pyval) list"
  | PyClass string
  | RuleSet pyval
  | PyObj (obj_mro: "string list") (obj_cls_attrs: "(string \<times> pyval) list")
      (obj_dict: "(string \<times> pyval) list")

datatype exn = TypeError | AttributeError | IndexError | Exception string

text \<open>Truth value testing, as \<open>if x:\<close> does it.\<close>

fun truthy :: "pyval \<Rightarrow> bool" where
  "truthy PyNone = False"
| "truthy (PyBool b) = b"
| "truthy (PyStr s) = (s \<noteq> [])"
| "truthy (PyTuple xs) = (xs \<noteq> [])"
| "truthy (PyList xs) = (xs \<noteq> [])"
| "truthy (PyDict d) = (d \<noteq> [])"
| "truthy (PyClass c) = True"
| "truthy (RuleSet r) = True"
| "truthy (PyObj m c d) = True"

section \<open>Converter registry\<close>

text \<open>
  A member of a converter object, as \<open>getattr(self, name)\<close> returns it. \<open>converter_for\<close> is
  the attribute \<open>_converter_for\<close>: \<open>None\<close> when the member has no such attribute, the
  elements of the frozenset otherwise.
\<close>

record 'f member =
  func :: 'f
  converter_for :: "string list option"

definition converts :: "string list \<Rightarrow> 'f member \<Rightarrow> 'f member" where
  "converts args f = f\<lparr>converter_for := Some (remdups args)\<rparr>"

record 'f ModelConverterBase =
  use_mro :: bool
  converters :: "'f member pydict"

text \<open>The loop \<open>for classname in obj._converter_for: converters[classname] = obj\<close>.\<close>

fun register_ids :: "'f member \<Rightarrow> string list \<Rightarrow> 'f member pydict \<Rightarrow> 'f member pydict" where
  "register_ids obj [] conv = conv"
| "register_ids obj (classname # rest) conv =
     register_ids obj rest (AList.update classname obj conv)"

text \<open>The loop \<open>for name in dir(self)\<close>; the members come in the order of \<open>dir\<close>.\<close>

fun scan_members :: "(string \<times> 'f member) list \<Rightarrow> 'f member pydict \<Rightarrow> 'f member pydict" where
  "scan_members [] conv = conv"
| "scan_members ((name, obj) # rest) conv =
     (case converter_for obj of
        Some ids \<Rightarrow> scan_members rest (register_ids obj ids conv)
      | None \<Rightarrow> scan_members rest conv)"

text \<open>
  \<open>ModelConverterBase.__init__(self, converters=None, use_mro=True)\<close>; the third argument
  is what \<open>dir(self)\<close> and \<open>getattr\<close> find on the object.
\<close>

definition ModelConverterBase_init ::
  "'f member pydict option \<Rightarrow> bool \<Rightarrow> (string \<times> 'f member) list \<Rightarrow> 'f ModelConverterBase" where
  "ModelConverterBase_init seed um members =
     (let conv = (case seed of None \<Rightarrow> [] | Some d \<Rightarrow> if d = [] then [] else d)
      in \<lparr>use_mro = um, converters = scan_members members conv\<rparr>)"

text \<open>The tagged members that claim identifier \<open>k\<close>, in scan order.\<close>

definition claims :: "string \<Rightarrow> string \<times> 'f member \<Rightarrow> bool" where
  "claims k m = (case converter_for (snd m) of Some ids \<Rightarrow> k \<in> set ids | None \<Rightarrow> False)"

definition tagged :: "string \<times> 'f member \<Rightarrow> bool" where
  "tagged m = (converter_for (snd m) \<noteq> None)"

definition seed_dict :: "'v pydict option \<Rightarrow> 'v pydict" where
  "seed_dict seed = (case seed of None \<Rightarrow> [] | Some d \<Rightarrow> d)"

section \<open>Converter resolver\<close>

text \<open>A class as the resolver sees it: \<open>__module__\<close> and \<open>__name__\<close>.\<close>

record col_class =
  cmodule :: string
  cname :: string

text \<open>
  A column: \<open>coltype\<close> is \<open>type(column.type)\<close> and \<open>coltype_ancestors\<close> is the rest of its
  \<open>__mro__\<close>, most specific first.
\<close>

record column =
  coltype :: col_class
  coltype_ancestors :: "col_class list"

definition getmro :: "column \<Rightarrow> col_class list" where
  "getmro c = coltype c # coltype_ancestors c"

definition type_string :: "col_class \<Rightarrow> string" where
  "type_string t = cmodule t @ ''.'' @ cname t"

fun search_by_module_name :: "'v pydict \<Rightarrow> col_class list \<Rightarrow> 'v option" where
  "search_by_module_name conv [] = None"
| "search_by_module_name conv (col_type # rest) =
     (if type_string col_type \<in> keys conv then map_of conv (type_string col_type)
      else search_by_module_name conv rest)"

fun search_by_name :: "'v pydict \<Rightarrow> col_class list \<Rightarrow> 'v option" where
  "search_by_name conv [] = None"
| "search_by_name conv (col_type # rest) =
     (if cname col_type \<in> keys conv then map_of conv (cname col_type)
      else search_by_name conv rest)"

text \<open>\<open>None\<close> is the \<open>return None\<close> of the last line.\<close>

definition get_converter :: "'f ModelConverterBase \<Rightarrow> column \<Rightarrow> 'f member option" where
  "get_converter self column =
     (let types = (if use_mro self then getmro column else [coltype column])
      in case search_by_module_name (converters self) types of
           Some f \<Rightarrow> Some f
         | None \<Rightarrow> search_by_name (converters self) types)"

section \<open>List-form transformer\<close>

text \<open>
  An \<open>UnboundField\<close>: the field class with the positional and keyword arguments it was
  declared with. Field objects live in a store and are addressed by their index, since
  \<open>create_editable_list_form\<close> updates \<open>obj.kwargs\<close> of objects that the source class
  still holds.
\<close>

record unbound_field =
  field_class :: string
  args :: "pyval list"
  kwargs :: "pyval pydict"

type_synonym store = "unbound_field list"

text \<open>
  A value of a class \<open>__dict__\<close>: a reference to an \<open>UnboundField\<close> in the store
  (\<open>isinstance(obj, UnboundField)\<close> holds), or anything else.
\<close>

datatype attr = FieldRef nat | Other pyval

datatype form_class =
  FormClass (fc_name: string) (fc_bases: "form_class list") (fc_dict: "attr pydict")

definition XEditableWidget :: pyval where
  "XEditableWidget = PyObj [''XEditableWidget''] [] []"

definition InputRequired :: pyval where
  "InputRequired = PyObj [''InputRequired''] [] []"

definition HiddenField :: "pyval pydict \<Rightarrow> unbound_field" where
  "HiddenField kw = \<lparr>field_class = ''HiddenField'', args = [], kwargs = kw\<rparr>"

definition set_widget :: "pyval \<Rightarrow> unbound_field \<Rightarrow> unbound_field" where
  "set_widget widget obj = obj\<lparr>kwargs := AList.update ''widget'' widget (kwargs obj)\<rparr>"

text \<open>
  The loop over \<open>form_class.__dict__\<close>, on the attributes of \<open>ListForm\<close> and the store. The
  exception leaves the function after the field named \<open>list_form_pk\<close> has been updated.
\<close>

fun copy_fields ::
  "pyval \<Rightarrow> attr pydict \<Rightarrow> attr pydict \<Rightarrow> store \<Rightarrow> (exn + attr pydict) \<times> store" where
  "copy_fields widget [] list_form h = (Inr list_form, h)"
| "copy_fields widget ((name, Other v) # rest) list_form h =
     copy_fields widget rest list_form h"
| "copy_fields widget ((name, FieldRef a) # rest) list_form h =
     (let h' = h[a := set_widget widget (h ! a)];
          list_form' = AList.update name (FieldRef a) list_form
      in if name = ''list_form_pk''
         then (Inl (Exception ''Form already has a list_form_pk column.''), h')
         else copy_fields widget rest list_form' h')"

text \<open>
  \<open>create_editable_list_form(form_base_class, form_class, widget=None)\<close>. The class
  statement allocates the \<open>HiddenField\<close> of \<open>list_form_pk\<close> at a fresh address.
\<close>

definition create_editable_list_form ::
  "form_class \<Rightarrow> form_class \<Rightarrow> pyval \<Rightarrow> store \<Rightarrow> (exn + form_class) \<times> store" where
  "create_editable_list_form form_base_class form_class widget h =
     (let widget' = (if widget = PyNone then XEditableWidget else widget);
          h0 = h @ [HiddenField [(''validators'', PyList [InputRequired])]];
          list_form = [(''list_form_pk'', FieldRef (length h))]
      in case copy_fields widget' (fc_dict form_class) list_form h0 of
           (Inl e, h') \<Rightarrow> (Inl e, h')
         | (Inr d, h') \<Rightarrow> (Inr (FormClass ''ListForm'' [form_base_class] d), h'))"

text \<open>
  The unbound fields that a class dictionary declares, with their addresses: the items
  of \<open>__dict__\<close> that pass \<open>isinstance(obj, UnboundField)\<close>.
\<close>

fun field_entries :: "attr pydict \<Rightarrow> (string \<times> nat) list" where
  "field_entries [] = []"
| "field_entries ((name, FieldRef a) # rest) = (name, a) # field_entries rest"
| "field_entries ((name, Other v) # rest) = field_entries rest"

definition field_names :: "attr pydict \<Rightarrow> string set" where
  "field_names d = fst ` set (field_entries d)"

definition field_refs :: "attr pydict \<Rightarrow> nat set" where
  "field_refs d = snd ` set (field_entries d)"

text \<open>Every field reference of the dictionary points into the store.\<close>

definition refs_in_store :: "attr pydict \<Rightarrow> store \<Rightarrow> bool" where
  "refs_in_store d h = (\<forall>a \<in> field_refs d. a < length h)"

text \<open>
  Attribute lookup on a class: its own dictionary first, then its bases in order. Python
  searches the linearised hierarchy; the two agree whenever no class is reached along two
  paths, in particular for single inheritance, and the class that
  \<open>create_editable_list_form\<close> builds has the one base \<open>form_base_class\<close>.
\<close>

fun first_some :: "'a option list \<Rightarrow> 'a option" where
  "first_some [] = None"
| "first_some (Some v # rest) = Some v"
| "first_some (None # rest) = first_some rest"

fun class_lookup :: "form_class \<Rightarrow> string \<Rightarrow> attr option" where
  "class_lookup (FormClass name bases d) k =
     (case map_of d k of
        Some v \<Rightarrow> Some v
      | None \<Rightarrow> first_some (map (\<lambda>b. class_lookup b k) bases))"

text \<open>The class has an unbound field under the name, declared or inherited.\<close>

definition is_field :: "form_class \<Rightarrow> string \<Rightarrow> bool" where
  "is_field c k = (case class_lookup c k of Some (FieldRef a) \<Rightarrow> True | _ \<Rightarrow> False)"

section \<open>Inline-admin descriptor\<close>

text \<open>Attribute lookup on an instance: its own dictionary first, then the class.\<close>

definition lookup_attr :: "pyval pydict \<Rightarrow> pyval pydict \<Rightarrow> string \<Rightarrow> pyval option" where
  "lookup_attr cls d k = (case map_of d k of Some v \<Rightarrow> Some v | None \<Rightarrow> map_of cls k)"

fun getattr :: "pyval \<Rightarrow> string \<Rightarrow> pyval option" where
  "getattr (PyObj mro cls d) k = lookup_attr cls d k"
| "getattr v k = None"

definition getattr_default :: "pyval \<Rightarrow> string \<Rightarrow> pyval \<Rightarrow> pyval" where
  "getattr_default obj k dflt = (case getattr obj k of Some v \<Rightarrow> v | None \<Rightarrow> dflt)"

definition hasattr :: "pyval \<Rightarrow> string \<Rightarrow> bool" where
  "hasattr obj k = (getattr obj k \<noteq> None)"

fun setattr :: "pyval \<Rightarrow> string \<Rightarrow> pyval \<Rightarrow> pyval" where
  "setattr (PyObj mro cls d) k v = PyObj mro cls (AList.update k v d)"
| "setattr obj k v = obj"

definition defaults :: "string list" where
  "defaults = [''form_base_class'', ''form_columns'', ''form_excluded_columns'',
               ''form_args'', ''form_extra_fields'']"

fun init_defaults :: "string list \<Rightarrow> pyval \<Rightarrow> pyval" where
  "init_defaults [] self = self"
| "init_defaults (k # ks) self =
     init_defaults ks (if \<not> hasattr self k then setattr self k PyNone else self)"

fun apply_kwargs :: "pyval pydict \<Rightarrow> pyval \<Rightarrow> pyval" where
  "apply_kwargs [] self = self"
| "apply_kwargs ((k, v) # rest) self = apply_kwargs rest (setattr self k v)"

text \<open>
  The names that \<open>for k in self._defaults\<close> visits. Lists and tuples give their elements,
  a dictionary its keys, a string its characters; \<open>hasattr\<close> raises \<open>TypeError\<close> for a name
  that is not a string, and so does iteration over a value that is not iterable (the
  instances modelled here define no \<open>__iter__\<close>).
\<close>

fun str_names :: "pyval list \<Rightarrow> exn + string list" where
  "str_names [] = Inr []"
| "str_names (PyStr s # rest) =
     (case str_names rest of Inl e \<Rightarrow> Inl e | Inr names \<Rightarrow> Inr (s # names))"
| "str_names (v # rest) = Inl TypeError"

definition defaults_of :: "pyval \<Rightarrow> exn + string list" where
  "defaults_of self =
     (case getattr self ''_defaults'' of
        None \<Rightarrow> Inl AttributeError
      | Some (PyList xs) \<Rightarrow> str_names xs
      | Some (PyTuple xs) \<Rightarrow> str_names xs
      | Some (PyDict d) \<Rightarrow> Inr (map fst d)
      | Some (PyStr s) \<Rightarrow> Inr (map (\<lambda>c. [c]) s)
      | Some v \<Rightarrow> Inl TypeError)"

text \<open>
  \<open>rules.RuleSet(self, form_rules)\<close> is defined outside this module and validates the
  rules it is given; it is a parameter here, from the descriptor and the rules to the rule
  set or to the exception it raises.
\<close>

type_synonym rule_compiler = "pyval \<Rightarrow> pyval \<Rightarrow> exn + pyval"

text \<open>
  \<open>InlineBaseFormAdmin.__init__(self, **kwargs)\<close>, returning the initialised object or the
  exception that leaves the constructor.
\<close>

definition InlineBaseFormAdmin_init ::
  "rule_compiler \<Rightarrow> pyval \<Rightarrow> pyval pydict \<Rightarrow> exn + pyval" where
  "InlineBaseFormAdmin_init compile_rules self kw =
     (case defaults_of self of
        Inl e \<Rightarrow> Inl e
      | Inr ks \<Rightarrow>
          (let self1 = init_defaults ks self;
               self2 = apply_kwargs kw self1;
               form_rules = getattr_default self2 ''form_rules'' PyNone
           in if truthy form_rules
              then (case compile_rules self2 form_rules of
                      Inl e \<Rightarrow> Inl e
                    | Inr rs \<Rightarrow> Inr (setattr self2 ''_form_rules'' rs))
              else Inr (setattr self2 ''_form_rules'' PyNone)))"

text \<open>\<open>InlineFormAdmin.__init__(self, model, **kwargs)\<close>.\<close>

definition InlineFormAdmin_init ::
  "rule_compiler \<Rightarrow> pyval \<Rightarrow> pyval \<Rightarrow> pyval pydict \<Rightarrow> exn + pyval" where
  "InlineFormAdmin_init compile_rules self model kw =
     InlineBaseFormAdmin_init compile_rules (setattr self ''model'' model) kw"

text \<open>A class: its name, the names of the rest of its \<open>__mro__\<close>, and its attributes.\<close>

record pyclass =
  cls_name :: string
  cls_ancestors :: "string list"
  cls_attrs :: "pyval pydict"

text \<open>The fresh instance that \<open>cls.__new__\<close> hands to \<open>__init__\<close>.\<close>

definition new_instance :: "pyclass \<Rightarrow> pyval" where
  "new_instance c = PyObj (cls_name c # cls_ancestors c) (cls_attrs c) []"

fun isinstance :: "pyval \<Rightarrow> pyclass \<Rightarrow> bool" where
  "isinstance (PyObj mro cls d) c = (cls_name c \<in> set mro)"
| "isinstance v c = False"

definition InlineBaseFormAdmin :: pyclass where
  "InlineBaseFormAdmin =
     \<lparr>cls_name = ''InlineBaseFormAdmin'', cls_ancestors = [''object''],
      cls_attrs = [(''_defaults'', PyList (map PyStr defaults))]\<rparr>"

definition InlineFormAdmin :: pyclass where
  "InlineFormAdmin =
     \<lparr>cls_name = ''InlineFormAdmin'', cls_ancestors = [''InlineBaseFormAdmin'', ''object''],
      cls_attrs = [(''_defaults'', PyList (map PyStr defaults))]\<rparr>"

subsection \<open>The compatibility wrapper of the change hook\<close>

text \<open>
  An \<open>on_model_change\<close> method: the number of parameters it accepts after \<open>self\<close>, and what
  its body does with them (\<open>None\<close>: it returns; \<open>Some e\<close>: it raises \<open>e\<close>). A call with
  another number of arguments raises \<open>TypeError\<close> before the body runs.
\<close>

datatype hook = Hook (arity: nat) (body: "pyval list \<Rightarrow> exn option")

datatype event = Called "pyval list" | Warned string

definition call_hook :: "hook \<Rightarrow> pyval list \<Rightarrow> exn option \<times> event list" where
  "call_hook f as =
     (if length as = arity f then (body f as, [Called as]) else (Some TypeError, []))"

definition default_on_model_change :: hook where
  "default_on_model_change = Hook 3 (\<lambda>as. None)"

text \<open>
  The format \<open>'%s...' % x\<close> with its one placeholder: a tuple on the right is the argument
  list, so only a one-element tuple fits and any other tuple is a \<open>TypeError\<close>. \<open>str_of\<close> is
  Python's \<open>str\<close>.
\<close>

definition percent_s :: "(pyval \<Rightarrow> string) \<Rightarrow> pyval \<Rightarrow> exn + string" where
  "percent_s str_of x =
     (case x of
        PyTuple [y] \<Rightarrow> Inr (str_of y)
      | PyTuple ys \<Rightarrow> Inl TypeError
      | _ \<Rightarrow> Inr (str_of x))"

text \<open>
  \<open>InlineBaseFormAdmin._on_model_change\<close>, with the \<open>on_model_change\<close> method of the
  object as an argument. The result is what the call raises, if anything, and the calls
  and warnings it made, in order.
\<close>

definition on_model_change_compat ::
  "(pyval \<Rightarrow> string) \<Rightarrow> pyval \<Rightarrow> hook \<Rightarrow> pyval \<Rightarrow> pyval \<Rightarrow> pyval \<Rightarrow> exn option \<times> event list" where
  "on_model_change_compat str_of self on_model_change form model is_created =
     (case call_hook on_model_change [form, model, is_created] of
        (None, tr) \<Rightarrow> (None, tr)
      | (Some TypeError, tr) \<Rightarrow>
          (case getattr self ''model'' of
             None \<Rightarrow> (Some AttributeError, tr)
           | Some m \<Rightarrow>
               (case percent_s str_of m of
                  Inl e \<Rightarrow> (Some e, tr)
                | Inr s \<Rightarrow>
                    (let msg = s @ ''.on_model_change() now accepts third ''
                                 @ ''parameter is_created. Please update your code'';
                         (r, tr') = call_hook on_model_change [form, model]
                     in (r, tr @ [Warned msg] @ tr'))))
      | (Some e, tr) \<Rightarrow> (Some e, tr))"

section \<open>Inline converter base\<close>

text \<open>
  The owning view, as far as \<open>get_label\<close> reads it: \<open>column_labels\<close> is \<open>None\<close> when the
  attribute is missing or \<open>None\<close>, a dictionary otherwise.
\<close>

record view =
  column_labels :: "pyval pydict option"

record InlineModelConverterBase =
  form_admin_class :: pyclass
  view :: view

definition get_label :: "InlineModelConverterBase \<Rightarrow> pyval \<Rightarrow> string \<Rightarrow> pyval" where
  "get_label self info name =
     (let form_name = getattr_default info ''form_label'' PyNone
      in if truthy form_name then form_name
         else (case column_labels (view self) of
                 None \<Rightarrow> PyNone
               | Some labels \<Rightarrow>
                   if labels \<noteq> [] \<and> name \<in> keys labels
                   then (case map_of labels name of Some v \<Rightarrow> v | None \<Rightarrow> PyNone)
                   else PyNone))"

text \<open>
  The call \<open>self.form_admin_class(p[0], **p[1])\<close>, for \<open>InlineFormAdmin\<close> or a subclass
  that inherits its constructor: the second element must be a mapping, and a keyword that
  names a positional parameter of \<open>__init__(self, model, **kwargs)\<close> is a \<open>TypeError\<close>.
\<close>

definition call_form_admin_class ::
  "rule_compiler \<Rightarrow> pyclass \<Rightarrow> pyval \<Rightarrow> pyval \<Rightarrow> exn + pyval" where
  "call_form_admin_class compile_rules c model options =
     (case options of
        PyDict kw \<Rightarrow>
          if ''self'' \<in> keys kw \<or> ''model'' \<in> keys kw then Inl TypeError
          else InlineFormAdmin_init compile_rules (new_instance c) model kw
      | _ \<Rightarrow> Inl TypeError)"

definition get_info :: "rule_compiler \<Rightarrow> InlineModelConverterBase \<Rightarrow> pyval \<Rightarrow> exn + pyval" where
  "get_info compile_rules self p =
     (case p of
        PyTuple xs \<Rightarrow>
          (case xs of
             x # y # rest \<Rightarrow> call_form_admin_class compile_rules (form_admin_class self) x y
           | _ \<Rightarrow> Inl IndexError)
      | _ \<Rightarrow> if isinstance p (form_admin_class self) then Inr p else Inr PyNone)"

section \<open>Example inputs\<close>

definition string_converter :: "nat member" where
  "string_converter = converts [''String''] \<lparr>func = 1, converter_for = None\<rparr>"

definition ex_registry :: "bool \<Rightarrow> nat ModelConverterBase" where
  "ex_registry um = \<lparr>use_mro = um, converters = [(''String'', string_converter)]\<rparr>"

definition ex_T :: col_class where
  "ex_T = \<lparr>cmodule = ''app.types'', cname = ''Slug''\<rparr>"

definition ex_A :: col_class where
  "ex_A = \<lparr>cmodule = ''app.types'', cname = ''ShortText''\<rparr>"

definition ex_B :: col_class where
  "ex_B = \<lparr>cmodule = ''sqlalchemy.sql.sqltypes'', cname = ''String''\<rparr>"

definition ex_column :: column where
  "ex_column = \<lparr>coltype = ex_T, coltype_ancestors = [ex_A, ex_B]\<rparr>"

definition ex_plain_column :: column where
  "ex_plain_column = \<lparr>coltype = ex_T, coltype_ancestors = [ex_A]\<rparr>"

definition text_converter :: "nat member" where
  "text_converter = converts [''String'', ''Text''] \<lparr>func = 2, converter_for = None\<rparr>"

definition helper_method :: "nat member" where
  "helper_method = \<lparr>func = 3, converter_for = None\<rparr>"

definition seeded_converter :: "nat member" where
  "seeded_converter = \<lparr>func = 0, converter_for = None\<rparr>"

definition ex_members :: "(string \<times> nat member) list" where
  "ex_members = [(''conv_Text'', text_converter), (''get_form'', helper_method),
                 (''handle_string'', string_converter)]"

definition ex_seed :: "nat member pydict option" where
  "ex_seed = Some [(''String'', seeded_converter), (''Enum'', seeded_converter)]"

definition StringField :: "pyval pydict \<Rightarrow> unbound_field" where
  "StringField kw = \<lparr>field_class = ''StringField'', args = [], kwargs = kw\<rparr>"

definition ex_store :: store where
  "ex_store = [StringField [], StringField [(''widget'', PyClass ''TextInput'')],
               StringField [(''label'', PyStr ''City'')]]"

definition BaseForm :: form_class where
  "BaseForm = FormClass ''BaseForm'' [] []"

definition ex_form :: form_class where
  "ex_form = FormClass ''UserForm'' [BaseForm]
     [(''a'', FieldRef 0), (''Meta'', Other (PyClass ''Meta'')), (''b'', FieldRef 1),
      (''c'', FieldRef 2)]"

definition ex_reserved_form :: form_class where
  "ex_reserved_form = FormClass ''UserForm'' [BaseForm]
     [(''a'', FieldRef 0), (''list_form_pk'', FieldRef 1), (''c'', FieldRef 2)]"

definition ex_list_form :: form_class where
  "ex_list_form = FormClass ''ListForm'' [BaseForm]
     [(''list_form_pk'', FieldRef 3), (''a'', FieldRef 0), (''b'', FieldRef 1),
      (''c'', FieldRef 2)]"

definition ex_store_after :: store where
  "ex_store_after =
     [StringField [(''widget'', PyClass ''Select2Widget'')],
      StringField [(''widget'', PyClass ''Select2Widget'')],
      StringField [(''label'', PyStr ''City''), (''widget'', PyClass ''Select2Widget'')],
      HiddenField [(''validators'', PyList [InputRequired])]]"

definition ex_converter :: InlineModelConverterBase where
  "ex_converter = \<lparr>form_admin_class = InlineFormAdmin,
     view = \<lparr>column_labels = Some [(''email'', PyStr ''E-mail'')]\<rparr>\<rparr>"

text \<open>A rule compiler for the examples: it accepts a list or tuple of field names.\<close>

definition name_rules :: rule_compiler where
  "name_rules owner rules =
     (case rules of
        PyList rs \<Rightarrow> (case str_names rs of Inl e \<Rightarrow> Inl e | Inr names \<Rightarrow> Inr (RuleSet rules))
      | PyTuple rs \<Rightarrow> (case str_names rs of Inl e \<Rightarrow> Inl e | Inr names \<Rightarrow> Inr (RuleSet rules))
      | _ \<Rightarrow> Inl TypeError)"

definition ex_info :: "pyval pydict \<Rightarrow> pyval" where
  "ex_info kw =
     (case InlineFormAdmin_init name_rules (new_instance InlineFormAdmin) (PyClass ''UserInfo'') kw of
        Inr obj \<Rightarrow> obj
      | Inl e \<Rightarrow> PyNone)"

definition ex_kwargs :: "pyval pydict" where
  "ex_kwargs = [(''form_columns'', PyList [PyStr ''name'', PyStr ''email'']),
                (''form_rules'', PyList [PyStr ''name''])]"

definition ex_cls_attrs :: "pyval pydict" where
  "ex_cls_attrs = [(''form_args'', PyDict [(''name'', PyDict [])]),
                   (''_defaults'', PyList (map PyStr defaults))]"

definition slug_converter :: "nat member" where
  "slug_converter = converts [''Slug''] \<lparr>func = 4, converter_for = None\<rparr>"

definition ex_qualified_registry :: "bool \<Rightarrow> nat ModelConverterBase" where
  "ex_qualified_registry um =
     \<lparr>use_mro = um,
      converters = [(''Slug'', slug_converter), (''app.types.ShortText'', text_converter)]\<rparr>"

definition ex_field_base :: form_class where
  "ex_field_base = FormClass ''SecureForm'' [] [(''csrf_token'', FieldRef 3)]"

definition ex_base_store :: store where
  "ex_base_store = ex_store @ [\<lparr>field_class = ''HiddenField'', args = [], kwargs = []\<rparr>]"

section \<open>Properties of the registry and the resolver\<close>

lemma keys_map_of: "k \<in> keys d \<longleftrightarrow> map_of d k \<noteq> None"
  by (simp add: keys_def map_of_eq_None_iff)

lemma search_by_module_name_find:
  "search_by_module_name conv ts =
     (case find (\<lambda>t. type_string t \<in> keys conv) ts of
        Some t \<Rightarrow> map_of conv (type_string t) | None \<Rightarrow> None)"
  by (induction ts) simp_all

lemma search_by_name_find:
  "search_by_name conv ts =
     (case find (\<lambda>t. cname t \<in> keys conv) ts of
        Some t \<Rightarrow> map_of conv (cname t) | None \<Rightarrow> None)"
  by (induction ts) simp_all

lemma search_by_module_name_None:
  "search_by_module_name conv ts = None \<longleftrightarrow> (\<forall>t \<in> set ts. type_string t \<notin> keys conv)"
  by (induction ts) (auto simp: keys_map_of)

lemma search_by_name_None:
  "search_by_name conv ts = None \<longleftrightarrow> (\<forall>t \<in> set ts. cname t \<notin> keys conv)"
  by (induction ts) (auto simp: keys_map_of)

lemma map_of_register_ids:
  "map_of (register_ids obj ids conv) k = (if k \<in> set ids then Some obj else map_of conv k)"
  by (induction ids arbitrary: conv) (auto simp: update_conv')

lemma map_of_scan_members:
  "map_of (scan_members ms conv) k =
     (if \<exists>m \<in> set ms. claims k m then Some (snd (last (filter (claims k) ms)))
      else map_of conv k)"
proof (induction ms arbitrary: conv)
  case Nil
  then show ?case by simp
next
  case (Cons m ms)
  obtain name obj where m: "m = (name, obj)" by (cases m)
  show ?case
  proof (cases "converter_for obj")
    case None
    then have "\<not> claims k m" by (simp add: claims_def m)
    then show ?thesis using None Cons.IH [of conv] by (simp add: m)
  next
    case (Some ids)
    show ?thesis
    proof (cases "\<exists>m' \<in> set ms. claims k m'")
      case True
      then have "filter (claims k) ms \<noteq> []" by (simp add: filter_empty_conv)
      then show ?thesis using True Some Cons.IH [of "register_ids obj ids conv"]
        by (simp add: m)
    next
      case False
      then have "filter (claims k) ms = []" by (simp add: filter_empty_conv)
      then show ?thesis using False Some Cons.IH [of "register_ids obj ids conv"]
        by (auto simp: m map_of_register_ids claims_def)
    qed
  qed
qed

lemma scan_members_untagged:
  "scan_members (filter tagged ms) conv = scan_members ms conv"
  by (induction ms conv rule: scan_members.induct) (auto simp: tagged_def split: option.splits)

lemma init_seed: "(case seed of None \<Rightarrow> [] | Some d \<Rightarrow> if d = [] then [] else d) = seed_dict seed"
  by (simp add: seed_dict_def split: option.splits)

text \<open>
  Claim C4. Building a converter registry inserts every tagged member under each identifier
  of its tag set. After construction the entry of an identifier that some tagged member
  claims is the last such member in scan order, never the entry of the seed mapping; a
  member that is the only one to claim an identifier is stored under it; an identifier that
  no member claims keeps the seed's entry; and members without a tag change nothing.
\<close>

theorem registry_built_from_tags:
  "map_of (converters (ModelConverterBase_init seed um members)) k =
     (if \<exists>m \<in> set members. claims k m
      then Some (snd (last (filter (claims k) members)))
      else map_of (seed_dict seed) k)
   \<and> (\<forall>m \<in> set members. claims k m \<and> (\<forall>m' \<in> set members. claims k m' \<longrightarrow> snd m' = snd m)
        \<longrightarrow> map_of (converters (ModelConverterBase_init seed um members)) k = Some (snd m))
   \<and> ModelConverterBase_init seed um (filter tagged members)
       = ModelConverterBase_init seed um members"
proof -
  let ?conv = "converters (ModelConverterBase_init seed um members)"
  have a: "map_of ?conv k =
     (if \<exists>m \<in> set members. claims k m
      then Some (snd (last (filter (claims k) members)))
      else map_of (seed_dict seed) k)"
    by (simp add: ModelConverterBase_init_def init_seed map_of_scan_members)
  have b: "map_of ?conv k = Some (snd m)"
    if "m \<in> set members" "claims k m" "\<forall>m' \<in> set members. claims k m' \<longrightarrow> snd m' = snd m" for m
  proof -
    have ne: "filter (claims k) members \<noteq> []"
      using that(1,2) by (auto simp: filter_empty_conv)
    then have "last (filter (claims k) members) \<in> set (filter (claims k) members)"
      by (rule last_in_set)
    then have "snd (last (filter (claims k) members)) = snd m"
      using that(3) by simp
    then show ?thesis using a that(1,2) by auto
  qed
  have c: "ModelConverterBase_init seed um (filter tagged members)
       = ModelConverterBase_init seed um members"
    by (simp add: ModelConverterBase_init_def scan_members_untagged)
  show ?thesis using a b c by blast
qed

text \<open>A registry built from a seed, two tagged members and one untagged member.\<close>

theorem registry_built_from_tags_witness:
  "(''conv_Text'', text_converter) \<in> set ex_members
   \<and> claims ''Text'' (''conv_Text'', text_converter)
   \<and> \<not> claims ''Text'' (''get_form'', helper_method)
   \<and> \<not> claims ''Text'' (''handle_string'', string_converter)
   \<and> map_of (converters (ModelConverterBase_init ex_seed True ex_members)) ''Text''
       = Some text_converter
   \<and> map_of (converters (ModelConverterBase_init ex_seed True ex_members)) ''String''
       = Some string_converter
   \<and> map_of (converters (ModelConverterBase_init ex_seed True ex_members)) ''Enum''
       = Some seeded_converter
   \<and> ModelConverterBase_init ex_seed True (filter tagged ex_members)
       = ModelConverterBase_init ex_seed True ex_members"
proof -
  have mem: "(''conv_Text'', text_converter) \<in> set ex_members"
    by (simp add: ex_members_def)
  have c1: "claims ''Text'' (''conv_Text'', text_converter)"
    and c2: "\<not> claims ''Text'' (''get_form'', helper_method)"
    and c3: "\<not> claims ''Text'' (''handle_string'', string_converter)"
    by (simp_all add: claims_def text_converter_def helper_method_def string_converter_def
        converts_def)
  have only: "\<forall>m' \<in> set ex_members. claims ''Text'' m'
      \<longrightarrow> snd m' = snd (''conv_Text'', text_converter)"
    using c2 c3 by (simp add: ex_members_def)
  note inst = registry_built_from_tags [of ex_seed True ex_members "''Text''"]
  from inst have "\<forall>m \<in> set ex_members.
      claims ''Text'' m \<and> (\<forall>m' \<in> set ex_members. claims ''Text'' m' \<longrightarrow> snd m' = snd m)
      \<longrightarrow> map_of (converters (ModelConverterBase_init ex_seed True ex_members)) ''Text''
            = Some (snd m)"
    by (rule conjunct1 [OF conjunct2])
  from bspec [OF this mem] c1 only
  have t: "map_of (converters (ModelConverterBase_init ex_seed True ex_members)) ''Text''
      = Some text_converter"
    by simp
  have s: "map_of (converters (ModelConverterBase_init ex_seed True ex_members)) ''String''
      = Some string_converter"
    using registry_built_from_tags [of ex_seed True ex_members "''String''"]
    by (simp add: ex_members_def claims_def text_converter_def string_converter_def
        helper_method_def converts_def)
  have e: "map_of (converters (ModelConverterBase_init ex_seed True ex_members)) ''Enum''
      = Some seeded_converter"
    using registry_built_from_tags [of ex_seed True ex_members "''Enum''"]
    by (simp add: ex_members_def ex_seed_def claims_def text_converter_def string_converter_def
        helper_method_def converts_def seed_dict_def)
  have u: "ModelConverterBase_init ex_seed True (filter tagged ex_members)
       = ModelConverterBase_init ex_seed True ex_members"
    using inst by (rule conjunct2 [OF conjunct2])
  show ?thesis using mem c1 c2 c3 t s e u by (intro conjI)
qed

lemma first_pass_find:
  "(case search_by_module_name conv ts of Some f \<Rightarrow> Some f | None \<Rightarrow> X) =
     (case find (\<lambda>t. type_string t \<in> keys conv) ts of
        Some t \<Rightarrow> map_of conv (type_string t) | None \<Rightarrow> X)"
  by (induction ts) (auto simp: keys_map_of)

text \<open>
  Claim C1. \<open>get_converter\<close> makes two passes over the candidate list, which is the whole
  ancestor chain when \<open>use_mro\<close> is set and the exact type alone otherwise: it returns the
  converter of the first candidate whose qualified identifier, the module, a dot and the
  type name, is registered, and failing that the converter of the first candidate whose
  bare name is registered. For a chain \<open>[T, A, B]\<close> where only the bare name of \<open>B\<close> is
  registered, the result is the converter of \<open>B\<close> with ancestor search and no converter
  without it.
\<close>

theorem get_converter_two_pass:
  "get_converter self col =
     (case find (\<lambda>t. cmodule t @ ''.'' @ cname t \<in> keys (converters self))
             (if use_mro self then coltype col # coltype_ancestors col else [coltype col]) of
        Some t \<Rightarrow> map_of (converters self) (cmodule t @ ''.'' @ cname t)
      | None \<Rightarrow>
         (case find (\<lambda>t. cname t \<in> keys (converters self))
                 (if use_mro self then coltype col # coltype_ancestors col else [coltype col]) of
            Some t \<Rightarrow> map_of (converters self) (cname t)
          | None \<Rightarrow> None))
   \<and> (coltype col = T \<and> coltype_ancestors col = [A, B]
        \<and> cmodule T @ ''.'' @ cname T \<notin> keys (converters self)
        \<and> cmodule A @ ''.'' @ cname A \<notin> keys (converters self)
        \<and> cmodule B @ ''.'' @ cname B \<notin> keys (converters self)
        \<and> cname T \<notin> keys (converters self) \<and> cname A \<notin> keys (converters self)
        \<and> map_of (converters self) (cname B) = Some f
      \<longrightarrow> (use_mro self \<longrightarrow> get_converter self col = Some f)
          \<and> (\<not> use_mro self \<longrightarrow> get_converter self col = None))"
proof -
  have general: "get_converter self col =
     (case find (\<lambda>t. cmodule t @ ''.'' @ cname t \<in> keys (converters self))
             (if use_mro self then coltype col # coltype_ancestors col else [coltype col]) of
        Some t \<Rightarrow> map_of (converters self) (cmodule t @ ''.'' @ cname t)
      | None \<Rightarrow>
         (case find (\<lambda>t. cname t \<in> keys (converters self))
                 (if use_mro self then coltype col # coltype_ancestors col else [coltype col]) of
            Some t \<Rightarrow> map_of (converters self) (cname t)
          | None \<Rightarrow> None))"
    by (simp only: get_converter_def Let_def getmro_def first_pass_find search_by_name_find
        type_string_def)
  have chain: "(use_mro self \<longrightarrow> get_converter self col = Some f)
          \<and> (\<not> use_mro self \<longrightarrow> get_converter self col = None)"
    if "coltype col = T" "coltype_ancestors col = [A, B]"
       "cmodule T @ ''.'' @ cname T \<notin> keys (converters self)"
       "cmodule A @ ''.'' @ cname A \<notin> keys (converters self)"
       "cmodule B @ ''.'' @ cname B \<notin> keys (converters self)"
       "cname T \<notin> keys (converters self)" "cname A \<notin> keys (converters self)"
       "map_of (converters self) (cname B) = Some f"
  proof -
    have "cname B \<in> keys (converters self)" using that(8) by (simp add: keys_map_of)
    then show ?thesis using that
      by (simp add: get_converter_def getmro_def type_string_def)
  qed
  show ?thesis using general chain by blast
qed

text \<open>
  A chain of three types of which only the last has a registered bare name; and a registry
  with a qualified entry for the middle type, which wins over the bare entry of the exact
  type when ancestors are searched.
\<close>

theorem get_converter_two_pass_witness:
  "coltype ex_column = ex_T \<and> coltype_ancestors ex_column = [ex_A, ex_B]
   \<and> cmodule ex_T @ ''.'' @ cname ex_T \<notin> keys (converters (ex_registry True))
   \<and> cmodule ex_A @ ''.'' @ cname ex_A \<notin> keys (converters (ex_registry True))
   \<and> cmodule ex_B @ ''.'' @ cname ex_B \<notin> keys (converters (ex_registry True))
   \<and> cname ex_T \<notin> keys (converters (ex_registry True))
   \<and> cname ex_A \<notin> keys (converters (ex_registry True))
   \<and> map_of (converters (ex_registry True)) (cname ex_B) = Some string_converter
   \<and> get_converter (ex_registry True) ex_column = Some string_converter
   \<and> get_converter (ex_registry False) ex_column = None
   \<and> cmodule ex_A @ ''.'' @ cname ex_A = ''app.types.ShortText''
   \<and> get_converter (ex_qualified_registry True) ex_column = Some text_converter
   \<and> get_converter (ex_qualified_registry False) ex_column = Some slug_converter"
  using get_converter_two_pass [of "ex_registry True" ex_column ex_T ex_A ex_B string_converter]
    get_converter_two_pass [of "ex_registry False" ex_column ex_T ex_A ex_B string_converter]
    get_converter_two_pass [of "ex_qualified_registry True" ex_column ex_T ex_A ex_B
      string_converter]
    get_converter_two_pass [of "ex_qualified_registry False" ex_column ex_T ex_A ex_B
      string_converter]
  by (simp add: ex_registry_def ex_qualified_registry_def ex_column_def ex_T_def ex_A_def
      ex_B_def keys_def)

text \<open>
  Claim C8. When no candidate type has a registered qualified name or bare name,
  \<open>get_converter\<close> returns \<open>None\<close>; the function has no raising branch.
\<close>

theorem get_converter_absent:
  "\<forall>t \<in> set (if use_mro self then getmro col else [coltype col]).
      type_string t \<notin> keys (converters self) \<and> cname t \<notin> keys (converters self)
   \<Longrightarrow> get_converter self col = None"
proof -
  assume h: "\<forall>t \<in> set (if use_mro self then getmro col else [coltype col]).
      type_string t \<notin> keys (converters self) \<and> cname t \<notin> keys (converters self)"
  let ?ts = "if use_mro self then getmro col else [coltype col]"
  have "search_by_module_name (converters self) ?ts = None"
    using h by (simp only: search_by_module_name_None) blast
  moreover have "search_by_name (converters self) ?ts = None"
    using h by (simp only: search_by_name_None) blast
  ultimately show ?thesis by (simp add: get_converter_def Let_def)
qed

text \<open>A column whose two candidate types are not registered.\<close>

theorem get_converter_absent_witness:
  "type_string ex_T \<notin> keys (converters (ex_registry True))
   \<and> cname ex_T \<notin> keys (converters (ex_registry True))
   \<and> type_string ex_A \<notin> keys (converters (ex_registry True))
   \<and> cname ex_A \<notin> keys (converters (ex_registry True))
   \<and> getmro ex_plain_column = [ex_T, ex_A]
   \<and> get_converter (ex_registry True) ex_plain_column = None"
proof -
  have k: "type_string ex_T \<notin> keys (converters (ex_registry True))"
    "cname ex_T \<notin> keys (converters (ex_registry True))"
    "type_string ex_A \<notin> keys (converters (ex_registry True))"
    "cname ex_A \<notin> keys (converters (ex_registry True))"
    by (simp_all add: ex_registry_def ex_T_def ex_A_def keys_def type_string_def)
  have m: "getmro ex_plain_column = [ex_T, ex_A]"
    by (simp add: getmro_def ex_plain_column_def)
  have h: "\<forall>t \<in> set (if use_mro (ex_registry True) then getmro ex_plain_column
                 else [coltype ex_plain_column]).
      type_string t \<notin> keys (converters (ex_registry True))
      \<and> cname t \<notin> keys (converters (ex_registry True))"
    using k by (simp add: m) (simp add: ex_registry_def)
  show ?thesis using k m get_converter_absent [OF h] by (intro conjI)
qed

section \<open>Properties of the list-form transformer\<close>

lemma field_entries_iff: "(n, a) \<in> set (field_entries d) \<longleftrightarrow> (n, FieldRef a) \<in> set d"
  by (induction d rule: field_entries.induct) auto

lemma field_entries_map_of:
  "distinct (map fst d) \<Longrightarrow> (n, a) \<in> set (field_entries d) \<longleftrightarrow> map_of d n = Some (FieldRef a)"
  by (simp add: field_entries_iff)

lemma field_names_map_of:
  "distinct (map fst d) \<Longrightarrow> n \<in> field_names d \<longleftrightarrow> (\<exists>a. map_of d n = Some (FieldRef a))"
proof -
  assume dist: "distinct (map fst d)"
  have "n \<in> field_names d \<longleftrightarrow> (\<exists>a. (n, a) \<in> set (field_entries d))"
    by (force simp: field_names_def)
  then show ?thesis using dist by (simp add: field_entries_map_of)
qed

lemma set_widget_idem: "set_widget w (set_widget w f) = set_widget w f"
  by (simp add: set_widget_def)

lemma widget_of_set_widget: "map_of (kwargs (set_widget w f)) ''widget'' = Some w"
  by (simp add: set_widget_def update_conv')

lemma copy_fields_raises:
  "''list_form_pk'' \<in> field_names d \<Longrightarrow>
   \<exists>h'. copy_fields w d lf h = (Inl (Exception ''Form already has a list_form_pk column.''), h')"
  by (induction w d lf h rule: copy_fields.induct) (auto simp: field_names_def Let_def)

lemma copy_fields_returns:
  "''list_form_pk'' \<notin> field_names d \<Longrightarrow> \<exists>lf' h'. copy_fields w d lf h = (Inr lf', h')"
  by (induction w d lf h rule: copy_fields.induct) (auto simp: field_names_def Let_def)

lemma copy_fields_length: "copy_fields w d lf h = (r, h') \<Longrightarrow> length h' = length h"
  by (induction w d lf h rule: copy_fields.induct) (auto simp: Let_def split: if_splits)

lemma copy_fields_store:
  "copy_fields w d lf h = (Inr lf', h') \<Longrightarrow> i < length h \<Longrightarrow>
   h' ! i = (if i \<in> field_refs d then set_widget w (h ! i) else h ! i)"
proof (induction w d lf h rule: copy_fields.induct)
  case (1 widget list_form h)
  then show ?case by (simp add: field_refs_def)
next
  case (2 widget name v rest list_form h)
  then show ?case by (simp add: field_refs_def)
next
  case (3 widget name a rest list_form h)
  let ?h1 = "h[a := set_widget widget (h ! a)]"
  from "3.prems" have ne: "name \<noteq> ''list_form_pk''"
    by (auto simp: Let_def split: if_splits)
  with "3.prems" have run: "copy_fields widget rest (AList.update name (FieldRef a) list_form) ?h1
      = (Inr lf', h')"
    by (simp add: Let_def)
  have ih: "h' ! i = (if i \<in> field_refs rest then set_widget widget (?h1 ! i) else ?h1 ! i)"
    using "3.IH" [OF refl refl ne run] "3.prems"(2) by simp
  show ?case
  proof (cases "i = a")
    case True
    then show ?thesis using ih "3.prems"(2)
      by (simp add: field_refs_def set_widget_idem)
  next
    case False
    then show ?thesis using ih by (auto simp: field_refs_def)
  qed
qed

lemma copy_fields_dict:
  "copy_fields w d lf h = (Inr lf', h') \<Longrightarrow> distinct (map fst d) \<Longrightarrow>
   map_of lf' n = (case map_of d n of Some (FieldRef a) \<Rightarrow> Some (FieldRef a) | _ \<Rightarrow> map_of lf n)"
proof (induction w d lf h rule: copy_fields.induct)
  case (1 widget list_form h)
  then show ?case by simp
next
  case (2 widget name v rest list_form h)
  then have "map_of rest name = None"
    by (simp add: map_of_eq_None_iff)
  then show ?case using 2 by auto
next
  case (3 widget name a rest list_form h)
  from "3.prems" have ne: "name \<noteq> ''list_form_pk''"
    by (auto simp: Let_def split: if_splits)
  with "3.prems" have run: "copy_fields widget rest (AList.update name (FieldRef a) list_form)
      (h[a := set_widget widget (h ! a)]) = (Inr lf', h')"
    by (simp add: Let_def)
  have none: "map_of rest name = None"
    using "3.prems"(2) by (simp add: map_of_eq_None_iff)
  have ih: "map_of lf' n = (case map_of rest n of Some (FieldRef a) \<Rightarrow> Some (FieldRef a)
      | _ \<Rightarrow> map_of (AList.update name (FieldRef a) list_form) n)"
    using "3.IH" [OF refl refl ne run] "3.prems"(2) by simp
  show ?case using ih none
    by (cases "n = name") (auto simp: update_conv' split: option.splits attr.splits)
qed

lemma copy_fields_distinct:
  "copy_fields w d lf h = (Inr lf', h') \<Longrightarrow> distinct (map fst lf) \<Longrightarrow> distinct (map fst lf')"
  by (induction w d lf h rule: copy_fields.induct)
     (auto simp: Let_def distinct_update split: if_splits)

lemma copy_fields_keys:
  "copy_fields w d lf h = (Inr lf', h') \<Longrightarrow> keys lf' = keys lf \<union> field_names d"
  by (induction w d lf h rule: copy_fields.induct)
     (auto simp: Let_def keys_def field_names_def dom_update split: if_splits)

lemma field_refs_member: "(n, a) \<in> set (field_entries d) \<Longrightarrow> a \<in> field_refs d"
  by (force simp: field_refs_def)

lemma set_widget_cell:
  "set_widget w f = f\<lparr>kwargs := AList.update ''widget'' w (kwargs f)\<rparr>"
  by (simp add: set_widget_def)

lemma first_some_single: "first_some [x] = x"
  by (cases x) simp_all

lemma class_lookup_single:
  "class_lookup (FormClass n [b] d) k =
     (case map_of d k of Some v \<Rightarrow> Some v | None \<Rightarrow> class_lookup b k)"
  by (cases "map_of d k") (simp_all add: first_some_single)

text \<open>
  Claim C2. When the source form class declares an unbound field named \<open>list_form_pk\<close>,
  \<open>create_editable_list_form\<close> raises and returns no class.
\<close>

theorem reserved_name_raises:
  "''list_form_pk'' \<in> field_names (fc_dict form_class) \<Longrightarrow>
   \<exists>h'. create_editable_list_form form_base_class form_class widget h =
     (Inl (Exception ''Form already has a list_form_pk column.''), h')"
proof -
  assume "''list_form_pk'' \<in> field_names (fc_dict form_class)"
  from copy_fields_raises [OF this]
  obtain h' where "copy_fields (if widget = PyNone then XEditableWidget else widget)
      (fc_dict form_class) [(''list_form_pk'', FieldRef (length h))]
      (h @ [HiddenField [(''validators'', PyList [InputRequired])]])
    = (Inl (Exception ''Form already has a list_form_pk column.''), h')"
    by blast
  then show ?thesis by (simp add: create_editable_list_form_def Let_def)
qed

text \<open>A source class with a field named \<open>list_form_pk\<close>.\<close>

theorem reserved_name_raises_witness:
  "''list_form_pk'' \<in> field_names (fc_dict ex_reserved_form)
   \<and> (\<exists>h'. create_editable_list_form BaseForm ex_reserved_form PyNone ex_store =
         (Inl (Exception ''Form already has a list_form_pk column.''), h'))"
proof -
  have h: "''list_form_pk'' \<in> field_names (fc_dict ex_reserved_form)"
    by (simp add: ex_reserved_form_def field_names_def)
  show ?thesis using h reserved_name_raises [OF h] by blast
qed

text \<open>
  Claim C3, as amended. When no declared field of the source class is named
  \<open>list_form_pk\<close>, the call returns a class whose only base is \<open>form_base_class\<close>. The
  attributes it declares are exactly the declared fields of the source class and
  \<open>list_form_pk\<close>; its fields, declared or inherited, are those and the fields of
  \<open>form_base_class\<close>. \<open>list_form_pk\<close> is a new \<open>HiddenField\<close> with the validator
  \<open>InputRequired\<close>. Every copied field keeps its name and is the field object of the source
  class, with the same field class, the same positional arguments and the same keywords,
  except that \<open>widget\<close> is the supplied widget, or \<open>XEditableWidget\<close> when the argument is
  \<open>None\<close>. The claim as written gives the derived class no other field; a base class that
  declares a field passes it on.
\<close>

theorem derived_form_fields:
  assumes dist: "distinct (map fst (fc_dict form_class))"
    and free: "''list_form_pk'' \<notin> field_names (fc_dict form_class)"
    and refs: "refs_in_store (fc_dict form_class) h"
  shows "\<exists>list_form h'.
    create_editable_list_form form_base_class form_class widget h = (Inr list_form, h')
    \<and> fc_bases list_form = [form_base_class]
    \<and> keys (fc_dict list_form) = field_names (fc_dict form_class) \<union> {''list_form_pk''}
    \<and> field_names (fc_dict list_form) = field_names (fc_dict form_class) \<union> {''list_form_pk''}
    \<and> (\<forall>k. is_field list_form k \<longleftrightarrow>
           k \<in> field_names (fc_dict form_class) \<or> k = ''list_form_pk''
           \<or> is_field form_base_class k)
    \<and> map_of (fc_dict list_form) ''list_form_pk'' = Some (FieldRef (length h))
    \<and> h' ! length h = \<lparr>field_class = ''HiddenField'', args = [],
                         kwargs = [(''validators'', PyList [InputRequired])]\<rparr>
    \<and> (\<forall>(name, a) \<in> set (field_entries (fc_dict form_class)).
          map_of (fc_dict list_form) name = Some (FieldRef a)
          \<and> class_lookup list_form name = Some (FieldRef a)
          \<and> h' ! a = (h ! a)\<lparr>kwargs := AList.update ''widget''
                         (if widget = PyNone then XEditableWidget else widget) (kwargs (h ! a))\<rparr>
          \<and> field_class (h' ! a) = field_class (h ! a)
          \<and> args (h' ! a) = args (h ! a)
          \<and> map_of (kwargs (h' ! a)) =
              (map_of (kwargs (h ! a)))
                (''widget'' \<mapsto> (if widget = PyNone then XEditableWidget else widget)))"
proof -
  let ?w = "if widget = PyNone then XEditableWidget else widget"
  let ?d = "fc_dict form_class"
  let ?lf = "[(''list_form_pk'', FieldRef (length h))]"
  let ?h0 = "h @ [HiddenField [(''validators'', PyList [InputRequired])]]"
  from copy_fields_returns [OF free]
  obtain lf' h' where run: "copy_fields ?w ?d ?lf ?h0 = (Inr lf', h')"
    by blast
  let ?L = "FormClass ''ListForm'' [form_base_class] lf'"
  have res: "create_editable_list_form form_base_class form_class widget h = (Inr ?L, h')"
    using run by (simp add: create_editable_list_form_def Let_def)
  have dict: "map_of lf' n = (case map_of ?d n of Some (FieldRef a) \<Rightarrow> Some (FieldRef a)
      | _ \<Rightarrow> map_of ?lf n)" for n
    by (rule copy_fields_dict [OF run dist])
  have pkfree: "\<And>a. map_of ?d ''list_form_pk'' \<noteq> Some (FieldRef a)"
    using free dist by (simp add: field_names_map_of)
  have dist': "distinct (map fst lf')"
    by (rule copy_fields_distinct [OF run]) simp
  have ks: "keys lf' = field_names ?d \<union> {''list_form_pk''}"
    using copy_fields_keys [OF run] by (auto simp: keys_def)
  have fs: "field_names lf' = field_names ?d \<union> {''list_form_pk''}"
  proof (rule set_eqI)
    fix n
    show "n \<in> field_names lf' \<longleftrightarrow> n \<in> field_names ?d \<union> {''list_form_pk''}"
      using pkfree
      by (auto simp: field_names_map_of [OF dist'] field_names_map_of [OF dist] dict
          split: option.splits attr.splits if_splits)
  qed
  have inh: "is_field ?L k \<longleftrightarrow>
      k \<in> field_names ?d \<or> k = ''list_form_pk'' \<or> is_field form_base_class k" for k
  proof (cases "map_of lf' k")
    case None
    then have "k \<notin> keys lf'" by (simp add: keys_map_of)
    then have "k \<notin> field_names ?d" "k \<noteq> ''list_form_pk''" using ks by auto
    then show ?thesis using None by (simp add: is_field_def first_some_single)
  next
    case (Some v)
    then have "k \<in> keys lf'" by (simp add: keys_map_of)
    then have "k \<in> field_names lf'" using ks fs by simp
    then obtain a where "map_of lf' k = Some (FieldRef a)"
      using field_names_map_of [OF dist'] by blast
    moreover have "k \<in> field_names ?d \<or> k = ''list_form_pk''"
      using \<open>k \<in> keys lf'\<close> ks by auto
    ultimately show ?thesis by (auto simp: is_field_def first_some_single)
  qed
  have pk: "map_of lf' ''list_form_pk'' = Some (FieldRef (length h))"
    using pkfree by (simp add: dict split: option.splits attr.splits)
  have notref: "length h \<notin> field_refs ?d"
    using refs by (auto simp: refs_in_store_def)
  have hidden: "h' ! length h = \<lparr>field_class = ''HiddenField'', args = [],
                         kwargs = [(''validators'', PyList [InputRequired])]\<rparr>"
    using copy_fields_store [OF run, of "length h"] notref by (simp add: HiddenField_def)
  have copied: "map_of (fc_dict ?L) name = Some (FieldRef a)
      \<and> class_lookup ?L name = Some (FieldRef a)
      \<and> h' ! a = (h ! a)\<lparr>kwargs := AList.update ''widget'' ?w (kwargs (h ! a))\<rparr>
      \<and> field_class (h' ! a) = field_class (h ! a)
      \<and> args (h' ! a) = args (h ! a)
      \<and> map_of (kwargs (h' ! a)) = (map_of (kwargs (h ! a)))(''widget'' \<mapsto> ?w)"
    if mem: "(name, a) \<in> set (field_entries ?d)" for name a
  proof -
    have "map_of ?d name = Some (FieldRef a)"
      using mem dist by (simp add: field_entries_map_of)
    then have 1: "map_of lf' name = Some (FieldRef a)" by (simp add: dict)
    have r: "a \<in> field_refs ?d" using mem by (rule field_refs_member)
    then have lt: "a < length h" using refs by (auto simp: refs_in_store_def)
    then have "h' ! a = set_widget ?w (?h0 ! a)"
      using copy_fields_store [OF run, of a] r by simp
    then have 2: "h' ! a = (h ! a)\<lparr>kwargs := AList.update ''widget'' ?w (kwargs (h ! a))\<rparr>"
      using lt by (simp add: set_widget_cell nth_append)
    show ?thesis using 1 by (simp add: 2 first_some_single update_conv')
  qed
  show ?thesis
  proof (intro exI [of _ ?L] exI [of _ h'] conjI)
    show "create_editable_list_form form_base_class form_class widget h = (Inr ?L, h')"
      by (rule res)
    show "fc_bases ?L = [form_base_class]" by simp
    show "keys (fc_dict ?L) = field_names ?d \<union> {''list_form_pk''}" using ks by simp
    show "field_names (fc_dict ?L) = field_names ?d \<union> {''list_form_pk''}" using fs by simp
    show "\<forall>k. is_field ?L k \<longleftrightarrow>
        k \<in> field_names ?d \<or> k = ''list_form_pk'' \<or> is_field form_base_class k"
      using inh by blast
    show "map_of (fc_dict ?L) ''list_form_pk'' = Some (FieldRef (length h))" using pk by simp
    show "h' ! length h = \<lparr>field_class = ''HiddenField'', args = [],
                         kwargs = [(''validators'', PyList [InputRequired])]\<rparr>"
      by (rule hidden)
    show "\<forall>(name, a) \<in> set (field_entries ?d).
          map_of (fc_dict ?L) name = Some (FieldRef a)
          \<and> class_lookup ?L name = Some (FieldRef a)
          \<and> h' ! a = (h ! a)\<lparr>kwargs := AList.update ''widget'' ?w (kwargs (h ! a))\<rparr>
          \<and> field_class (h' ! a) = field_class (h ! a)
          \<and> args (h' ! a) = args (h ! a)
          \<and> map_of (kwargs (h' ! a)) = (map_of (kwargs (h ! a)))(''widget'' \<mapsto> ?w)"
      by (clarify, erule copied)
  qed
qed

text \<open>A base class that declares \<open>csrf_token\<close>: the derived class has that field as well.\<close>

theorem inherited_field_counterexample:
  "field_names (fc_dict ex_form) = {''a'', ''b'', ''c''}
   \<and> (case create_editable_list_form ex_field_base ex_form PyNone ex_base_store of
         (Inr list_form, h') \<Rightarrow> is_field list_form ''csrf_token''
       | (Inl e, h') \<Rightarrow> False)
   \<and> ''csrf_token'' \<notin> {''a'', ''b'', ''c'', ''list_form_pk''}"
  by (simp add: create_editable_list_form_def ex_form_def ex_field_base_def ex_base_store_def
      ex_store_def field_names_def is_field_def Let_def insert_commute)

text \<open>A source class with the fields \<open>a\<close>, \<open>b\<close>, \<open>c\<close> and a nested \<open>Meta\<close> class.\<close>

theorem derived_form_fields_witness:
  "distinct (map fst (fc_dict ex_form)) \<and> ''list_form_pk'' \<notin> field_names (fc_dict ex_form)
   \<and> refs_in_store (fc_dict ex_form) ex_store
   \<and> (\<exists>list_form h'.
        create_editable_list_form BaseForm ex_form PyNone ex_store = (Inr list_form, h')
        \<and> fc_bases list_form = [BaseForm]
        \<and> keys (fc_dict list_form) = field_names (fc_dict ex_form) \<union> {''list_form_pk''}
        \<and> field_names (fc_dict list_form) = field_names (fc_dict ex_form) \<union> {''list_form_pk''}
        \<and> (\<forall>k. is_field list_form k \<longleftrightarrow>
               k \<in> field_names (fc_dict ex_form) \<or> k = ''list_form_pk'' \<or> is_field BaseForm k)
        \<and> map_of (fc_dict list_form) ''list_form_pk'' = Some (FieldRef (length ex_store))
        \<and> h' ! length ex_store = \<lparr>field_class = ''HiddenField'', args = [],
                         kwargs = [(''validators'', PyList [InputRequired])]\<rparr>
        \<and> (\<forall>(name, a) \<in> set (field_entries (fc_dict ex_form)).
              map_of (fc_dict list_form) name = Some (FieldRef a)
              \<and> class_lookup list_form name = Some (FieldRef a)
              \<and> h' ! a = (ex_store ! a)\<lparr>kwargs := AList.update ''widget''
                         (if PyNone = PyNone then XEditableWidget else PyNone)
                         (kwargs (ex_store ! a))\<rparr>
              \<and> field_class (h' ! a) = field_class (ex_store ! a)
              \<and> args (h' ! a) = args (ex_store ! a)
              \<and> map_of (kwargs (h' ! a)) =
                  (map_of (kwargs (ex_store ! a)))
                    (''widget'' \<mapsto> (if PyNone = PyNone then XEditableWidget else PyNone))))
   \<and> field_names (fc_dict ex_form) \<union> {''list_form_pk''} = {''a'', ''b'', ''c'', ''list_form_pk''}
   \<and> \<not> is_field BaseForm ''a''"
proof -
  have h1: "distinct (map fst (fc_dict ex_form))"
    by (simp add: ex_form_def)
  have h2: "''list_form_pk'' \<notin> field_names (fc_dict ex_form)"
    by (simp add: ex_form_def field_names_def)
  have h3: "refs_in_store (fc_dict ex_form) ex_store"
    by (simp add: ex_form_def refs_in_store_def field_refs_def ex_store_def)
  have names: "field_names (fc_dict ex_form) \<union> {''list_form_pk''}
      = {''a'', ''b'', ''c'', ''list_form_pk''}"
    by (simp add: ex_form_def field_names_def insert_commute)
  have base: "\<not> is_field BaseForm ''a''"
    by (simp add: is_field_def BaseForm_def)
  show ?thesis
    using h1 h2 h3 derived_form_fields [OF h1 h2 h3, of BaseForm PyNone] names base
    by (intro conjI) assumption+
qed

text \<open>
  Claim C10. A call that returns has updated the store in place: every field object that
  the source class declares keeps its field class, its positional arguments and its other
  keywords and has its \<open>widget\<close> keyword set to the supplied widget; every other object
  that existed before is unchanged; and the derived class refers to the very same objects,
  so the source class sees the new widget as well.
\<close>

theorem source_fields_mutated:
  assumes res: "create_editable_list_form form_base_class form_class widget h = (Inr list_form, h')"
    and dist: "distinct (map fst (fc_dict form_class))"
    and refs: "refs_in_store (fc_dict form_class) h"
  shows "length h' = length h + 1
    \<and> (\<forall>a < length h. h' ! a =
          (if a \<in> field_refs (fc_dict form_class)
           then (h ! a)\<lparr>kwargs := AList.update ''widget''
                   (if widget = PyNone then XEditableWidget else widget) (kwargs (h ! a))\<rparr>
           else h ! a))
    \<and> (\<forall>(name, a) \<in> set (field_entries (fc_dict form_class)).
          a < length h
          \<and> field_class (h' ! a) = field_class (h ! a)
          \<and> args (h' ! a) = args (h ! a)
          \<and> map_of (kwargs (h' ! a)) =
              (map_of (kwargs (h ! a)))
                (''widget'' \<mapsto> (if widget = PyNone then XEditableWidget else widget))
          \<and> map_of (fc_dict form_class) name = Some (FieldRef a)
          \<and> map_of (fc_dict list_form) name = Some (FieldRef a))"
proof -
  let ?w = "if widget = PyNone then XEditableWidget else widget"
  let ?d = "fc_dict form_class"
  let ?lf = "[(''list_form_pk'', FieldRef (length h))]"
  let ?h0 = "h @ [HiddenField [(''validators'', PyList [InputRequired])]]"
  obtain r hh where cf: "copy_fields ?w ?d ?lf ?h0 = (r, hh)"
    by (cases "copy_fields ?w ?d ?lf ?h0")
  with res obtain lf' where run: "copy_fields ?w ?d ?lf ?h0 = (Inr lf', h')"
    and L: "list_form = FormClass ''ListForm'' [form_base_class] lf'"
    by (cases r) (auto simp: create_editable_list_form_def Let_def)
  have len: "length h' = length h + 1"
    using copy_fields_length [OF run] by simp
  have cells: "h' ! a = (if a \<in> field_refs ?d
      then (h ! a)\<lparr>kwargs := AList.update ''widget'' ?w (kwargs (h ! a))\<rparr> else h ! a)"
    if "a < length h" for a
    using copy_fields_store [OF run, of a] that by (simp add: nth_append set_widget_cell)
  have dict: "map_of lf' n = (case map_of ?d n of Some (FieldRef a) \<Rightarrow> Some (FieldRef a)
      | _ \<Rightarrow> map_of ?lf n)" for n
    by (rule copy_fields_dict [OF run dist])
  have shared: "a < length h
      \<and> field_class (h' ! a) = field_class (h ! a)
      \<and> args (h' ! a) = args (h ! a)
      \<and> map_of (kwargs (h' ! a)) = (map_of (kwargs (h ! a)))(''widget'' \<mapsto> ?w)
      \<and> map_of ?d name = Some (FieldRef a)
      \<and> map_of (fc_dict list_form) name = Some (FieldRef a)"
    if mem: "(name, a) \<in> set (field_entries ?d)" for name a
  proof -
    have r: "a \<in> field_refs ?d" using mem by (rule field_refs_member)
    then have lt: "a < length h" using refs by (simp add: refs_in_store_def)
    have src: "map_of ?d name = Some (FieldRef a)"
      using mem dist by (simp add: field_entries_map_of)
    then have "map_of lf' name = Some (FieldRef a)" by (simp add: dict)
    moreover have "h' ! a = (h ! a)\<lparr>kwargs := AList.update ''widget'' ?w (kwargs (h ! a))\<rparr>"
      using cells [OF lt] r by simp
    ultimately show ?thesis using lt src L by (simp add: update_conv')
  qed
  show ?thesis
  proof (intro conjI)
    show "length h' = length h + 1" by (rule len)
    show "\<forall>a < length h. h' ! a =
          (if a \<in> field_refs ?d
           then (h ! a)\<lparr>kwargs := AList.update ''widget'' ?w (kwargs (h ! a))\<rparr>
           else h ! a)"
      using cells by blast
    show "\<forall>(name, a) \<in> set (field_entries ?d).
          a < length h
          \<and> field_class (h' ! a) = field_class (h ! a)
          \<and> args (h' ! a) = args (h ! a)
          \<and> map_of (kwargs (h' ! a)) = (map_of (kwargs (h ! a)))(''widget'' \<mapsto> ?w)
          \<and> map_of ?d name = Some (FieldRef a)
          \<and> map_of (fc_dict list_form) name = Some (FieldRef a)"
      by (clarify, erule shared)
  qed
qed

text \<open>
  The same source class with an explicit widget: the store before and after. The field
  \<open>b\<close> had the widget \<open>TextInput\<close>; the field \<open>c\<close> had a label, which it keeps.
\<close>

theorem source_fields_mutated_witness:
  "create_editable_list_form BaseForm ex_form (PyClass ''Select2Widget'') ex_store
     = (Inr ex_list_form, ex_store_after)
   \<and> distinct (map fst (fc_dict ex_form))
   \<and> refs_in_store (fc_dict ex_form) ex_store
   \<and> (''b'', 1) \<in> set (field_entries (fc_dict ex_form))
   \<and> (''c'', 2) \<in> set (field_entries (fc_dict ex_form))
   \<and> length ex_store_after = length ex_store + 1
   \<and> map_of (kwargs (ex_store ! 1)) ''widget'' = Some (PyClass ''TextInput'')
   \<and> map_of (kwargs (ex_store_after ! 1)) ''widget'' = Some (PyClass ''Select2Widget'')
   \<and> map_of (kwargs (ex_store_after ! 2)) ''label'' = Some (PyStr ''City'')
   \<and> map_of (kwargs (ex_store_after ! 2)) ''widget'' = Some (PyClass ''Select2Widget'')
   \<and> map_of (fc_dict ex_form) ''b'' = Some (FieldRef 1)
   \<and> map_of (fc_dict ex_list_form) ''b'' = Some (FieldRef 1)"
proof -
  have run: "create_editable_list_form BaseForm ex_form (PyClass ''Select2Widget'') ex_store
     = (Inr ex_list_form, ex_store_after)"
    by (simp add: create_editable_list_form_def ex_form_def ex_store_def Let_def
        set_widget_def StringField_def HiddenField_def ex_list_form_def ex_store_after_def)
  have h1: "distinct (map fst (fc_dict ex_form))"
    by (simp add: ex_form_def)
  have h3: "refs_in_store (fc_dict ex_form) ex_store"
    by (simp add: ex_form_def refs_in_store_def field_refs_def ex_store_def)
  have b: "(''b'', 1) \<in> set (field_entries (fc_dict ex_form))"
    and c: "(''c'', 2) \<in> set (field_entries (fc_dict ex_form))"
    by (simp_all add: ex_form_def)
  have before: "map_of (kwargs (ex_store ! 1)) ''widget'' = Some (PyClass ''TextInput'')"
    and label: "map_of (kwargs (ex_store ! 2)) ''label'' = Some (PyStr ''City'')"
    by (simp_all add: ex_store_def StringField_def)
  note all = source_fields_mutated [OF run h1 h3]
  from all have len: "length ex_store_after = length ex_store + 1"
    by (rule conjunct1)
  from all have fields: "\<forall>(name, a) \<in> set (field_entries (fc_dict ex_form)).
          a < length ex_store
          \<and> field_class (ex_store_after ! a) = field_class (ex_store ! a)
          \<and> args (ex_store_after ! a) = args (ex_store ! a)
          \<and> map_of (kwargs (ex_store_after ! a)) =
              (map_of (kwargs (ex_store ! a)))
                (''widget'' \<mapsto> (if PyClass ''Select2Widget'' = PyNone then XEditableWidget
                                  else PyClass ''Select2Widget''))
          \<and> map_of (fc_dict ex_form) name = Some (FieldRef a)
          \<and> map_of (fc_dict ex_list_form) name = Some (FieldRef a)"
    by (rule conjunct2 [OF conjunct2])
  from bspec [OF fields b]
  have after: "map_of (kwargs (ex_store_after ! 1)) ''widget'' = Some (PyClass ''Select2Widget'')"
    and src: "map_of (fc_dict ex_form) ''b'' = Some (FieldRef 1)"
    and same: "map_of (fc_dict ex_list_form) ''b'' = Some (FieldRef 1)"
    by simp_all
  from bspec [OF fields c] label
  have kept: "map_of (kwargs (ex_store_after ! 2)) ''label'' = Some (PyStr ''City'')"
    and set2: "map_of (kwargs (ex_store_after ! 2)) ''widget'' = Some (PyClass ''Select2Widget'')"
    by simp_all
  show ?thesis using run h1 h3 b c len before after kept set2 src same by (intro conjI)
qed

section \<open>Properties of the inline descriptor and the inline converter\<close>

lemma init_defaults_obj:
  "\<exists>d'. init_defaults ks (PyObj mro cls d) = PyObj mro cls d'
     \<and> (\<forall>k. lookup_attr cls d' k =
           (if k \<in> set ks \<and> lookup_attr cls d k = None then Some PyNone
            else lookup_attr cls d k))"
proof (induction ks arbitrary: d)
  case Nil
  then show ?case by simp
next
  case (Cons k ks)
  show ?case
  proof (cases "lookup_attr cls d k = None")
    case True
    from Cons.IH [of "AList.update k PyNone d"]
    obtain d' where 1: "init_defaults ks (PyObj mro cls (AList.update k PyNone d)) = PyObj mro cls d'"
      and 2: "\<forall>k'. lookup_attr cls d' k' =
           (if k' \<in> set ks \<and> lookup_attr cls (AList.update k PyNone d) k' = None then Some PyNone
            else lookup_attr cls (AList.update k PyNone d) k')"
      by blast
    have "lookup_attr cls (AList.update k PyNone d) k' =
        (if k' = k then Some PyNone else lookup_attr cls d k')" for k'
      by (simp add: lookup_attr_def update_conv')
    with 1 2 True show ?thesis
      by (auto simp: hasattr_def)
  next
    case False
    from Cons.IH [of d]
    obtain d' where 1: "init_defaults ks (PyObj mro cls d) = PyObj mro cls d'"
      and 2: "\<forall>k'. lookup_attr cls d' k' =
           (if k' \<in> set ks \<and> lookup_attr cls d k' = None then Some PyNone
            else lookup_attr cls d k')"
      by blast
    with False show ?thesis by (auto simp: hasattr_def)
  qed
qed

lemma apply_kwargs_obj:
  "\<exists>d'. apply_kwargs kw (PyObj mro cls d) = PyObj mro cls d'
     \<and> map_of d' = map_of d ++ map_of (rev kw)"
proof (induction kw arbitrary: d)
  case Nil
  then show ?case by simp
next
  case (Cons p kw)
  obtain k v where p: "p = (k, v)" by (cases p)
  from Cons.IH [of "AList.update k v d"]
  obtain d' where 1: "apply_kwargs kw (PyObj mro cls (AList.update k v d)) = PyObj mro cls d'"
    and 2: "map_of d' = map_of (AList.update k v d) ++ map_of (rev kw)"
    by blast
  have "map_of (AList.update k v d) ++ map_of (rev kw) = map_of d ++ map_of (rev kw @ [(k, v)])"
    by (rule ext) (simp add: update_conv' map_add_def split: option.splits)
  with 1 2 show ?case by (simp add: p)
qed

lemma map_of_rev_distinct: "distinct (map fst kw) \<Longrightarrow> map_of (rev kw) = map_of kw"
  by (subst map_of_inject_set) (simp_all add: rev_map [symmetric])

lemma str_names_PyStr: "str_names (map PyStr ks) = Inr ks"
  by (induction ks) simp_all

lemma defaults_of_list:
  "getattr self ''_defaults'' = Some (PyList (map PyStr ks)) \<Longrightarrow> defaults_of self = Inr ks"
  by (simp add: defaults_of_def str_names_PyStr)

lemma getattr_setattr_obj:
  "getattr (setattr (PyObj mro cls d) k v) k' =
     (if k' = k then Some v else getattr (PyObj mro cls d) k')"
  by (simp add: lookup_attr_def update_conv')

text \<open>The object after the two loops of the constructor.\<close>

lemma constructor_loops:
  "\<exists>d2. apply_kwargs kw (init_defaults ks (PyObj mro cls d)) = PyObj mro cls d2
     \<and> (\<forall>k. getattr (PyObj mro cls d2) k =
          (case map_of (rev kw) k of
             Some v \<Rightarrow> Some v
           | None \<Rightarrow> if k \<in> set ks \<and> \<not> hasattr (PyObj mro cls d) k then Some PyNone
                     else getattr (PyObj mro cls d) k))"
proof -
  from init_defaults_obj [of ks mro cls d]
  obtain d1 where 1: "init_defaults ks (PyObj mro cls d) = PyObj mro cls d1"
    and l1: "\<And>k. lookup_attr cls d1 k =
           (if k \<in> set ks \<and> lookup_attr cls d k = None then Some PyNone
            else lookup_attr cls d k)"
    by blast
  from apply_kwargs_obj [of kw mro cls d1]
  obtain d2 where 2: "apply_kwargs kw (PyObj mro cls d1) = PyObj mro cls d2"
    and m2: "map_of d2 = map_of d1 ++ map_of (rev kw)"
    by blast
  have l2: "lookup_attr cls d2 k = (case map_of (rev kw) k of Some v \<Rightarrow> Some v
      | None \<Rightarrow> lookup_attr cls d1 k)" for k
    by (simp add: lookup_attr_def m2 map_add_def split: option.splits)
  show ?thesis
    by (rule exI [of _ d2]) (auto simp: 1 2 l2 l1 hasattr_def split: option.splits)
qed

lemma InlineBaseFormAdmin_init_unfold:
  assumes "defaults_of self = Inr ks"
  shows "InlineBaseFormAdmin_init compile_rules self kw =
     (if truthy (getattr_default (apply_kwargs kw (init_defaults ks self)) ''form_rules'' PyNone)
      then (case compile_rules (apply_kwargs kw (init_defaults ks self))
                  (getattr_default (apply_kwargs kw (init_defaults ks self)) ''form_rules'' PyNone) of
              Inl e \<Rightarrow> Inl e
            | Inr rs \<Rightarrow> Inr (setattr (apply_kwargs kw (init_defaults ks self)) ''_form_rules'' rs))
      else Inr (setattr (apply_kwargs kw (init_defaults ks self)) ''_form_rules'' PyNone))"
  using assms by (simp add: InlineBaseFormAdmin_init_def Let_def)

lemma constructor_result:
  assumes dist: "distinct (map fst kw)"
    and dflt: "getattr (PyObj mro cls d) ''_defaults'' = Some (PyList (map PyStr ks))"
  shows "\<exists>d2.
      (\<forall>k. getattr (PyObj mro cls d2) k =
          (case map_of kw k of
             Some v \<Rightarrow> Some v
           | None \<Rightarrow> if k \<in> set ks \<and> \<not> hasattr (PyObj mro cls d) k then Some PyNone
                     else getattr (PyObj mro cls d) k))
    \<and> InlineBaseFormAdmin_init compile_rules (PyObj mro cls d) kw =
        (if truthy (getattr_default (PyObj mro cls d2) ''form_rules'' PyNone)
         then (case compile_rules (PyObj mro cls d2)
                     (getattr_default (PyObj mro cls d2) ''form_rules'' PyNone) of
                 Inl e \<Rightarrow> Inl e
               | Inr rs \<Rightarrow> Inr (setattr (PyObj mro cls d2) ''_form_rules'' rs))
         else Inr (setattr (PyObj mro cls d2) ''_form_rules'' PyNone))"
proof -
  let ?self = "PyObj mro cls d"
  from constructor_loops [of kw ks mro cls d] map_of_rev_distinct [OF dist]
  obtain d2 where o2: "apply_kwargs kw (init_defaults ks ?self) = PyObj mro cls d2"
    and l2: "\<forall>k. getattr (PyObj mro cls d2) k =
          (case map_of kw k of
             Some v \<Rightarrow> Some v
           | None \<Rightarrow> if k \<in> set ks \<and> \<not> hasattr ?self k then Some PyNone
                     else getattr ?self k)"
    by auto
  have res: "InlineBaseFormAdmin_init compile_rules ?self kw =
        (if truthy (getattr_default (PyObj mro cls d2) ''form_rules'' PyNone)
         then (case compile_rules (PyObj mro cls d2)
                     (getattr_default (PyObj mro cls d2) ''form_rules'' PyNone) of
                 Inl e \<Rightarrow> Inl e
               | Inr rs \<Rightarrow> Inr (setattr (PyObj mro cls d2) ''_form_rules'' rs))
         else Inr (setattr (PyObj mro cls d2) ''_form_rules'' PyNone))"
    using InlineBaseFormAdmin_init_unfold [OF defaults_of_list [OF dflt], of compile_rules kw]
    by (simp only: o2)
  show ?thesis
    by (rule exI [of _ d2]) (rule conjI [OF l2 res])
qed

text \<open>
  Claim C9, as amended. The constructor visits the names of \<open>self._defaults\<close>, the five
  fixed names unless a subclass replaces the list. After the two loops every such name is
  an attribute: \<open>None\<close> when neither the class nor a keyword provides it, the value of the
  class or of the keyword otherwise; every keyword argument is stored under its name; and
  nothing else changes. The constructor then stores \<open>_form_rules\<close>: the rule set compiled
  from the \<open>form_rules\<close> attribute when that attribute is truthy, \<open>None\<close> otherwise,
  overwriting a keyword of that name; when the rule compiler rejects the rules, its
  exception leaves the constructor. The claim as written asks for a rule set whenever
  \<open>form_rules\<close> is supplied; an empty list of rules is supplied and yields none.
\<close>

theorem descriptor_construction:
  assumes dist: "distinct (map fst kw)"
    and dflt: "getattr (PyObj mro cls d) ''_defaults'' = Some (PyList (map PyStr ks))"
  shows "\<exists>self2.
      (\<forall>k. getattr self2 k =
          (case map_of kw k of
             Some v \<Rightarrow> Some v
           | None \<Rightarrow> if k \<in> set ks \<and> \<not> hasattr (PyObj mro cls d) k then Some PyNone
                     else getattr (PyObj mro cls d) k))
    \<and> InlineBaseFormAdmin_init compile_rules (PyObj mro cls d) kw =
        (if truthy (getattr_default self2 ''form_rules'' PyNone)
         then (case compile_rules self2 (getattr_default self2 ''form_rules'' PyNone) of
                 Inl e \<Rightarrow> Inl e
               | Inr rs \<Rightarrow> Inr (setattr self2 ''_form_rules'' rs))
         else Inr (setattr self2 ''_form_rules'' PyNone))
    \<and> (\<forall>obj. InlineBaseFormAdmin_init compile_rules (PyObj mro cls d) kw = Inr obj \<longrightarrow>
          (\<forall>k \<in> set ks. hasattr obj k)
          \<and> (\<forall>k \<in> set ks. \<not> hasattr (PyObj mro cls d) k \<and> k \<notin> keys kw \<and> k \<noteq> ''_form_rules''
                \<longrightarrow> getattr obj k = Some PyNone)
          \<and> (\<forall>k. hasattr (PyObj mro cls d) k \<and> k \<notin> keys kw \<and> k \<noteq> ''_form_rules''
                \<longrightarrow> getattr obj k = getattr (PyObj mro cls d) k)
          \<and> (\<forall>(k, v) \<in> set kw. k \<noteq> ''_form_rules'' \<longrightarrow> getattr obj k = Some v)
          \<and> (\<forall>k. k \<noteq> ''_form_rules'' \<longrightarrow> getattr obj k = getattr self2 k)
          \<and> getattr obj ''_form_rules'' =
              Some (if truthy (getattr_default obj ''form_rules'' PyNone)
                    then (case compile_rules self2 (getattr_default obj ''form_rules'' PyNone) of
                            Inr rs \<Rightarrow> rs | Inl e \<Rightarrow> PyNone)
                    else PyNone))"
proof -
  let ?self = "PyObj mro cls d"
  from constructor_result [OF dist dflt, of compile_rules]
  obtain d2 where both:
    "(\<forall>k. getattr (PyObj mro cls d2) k =
          (case map_of kw k of
             Some v \<Rightarrow> Some v
           | None \<Rightarrow> if k \<in> set ks \<and> \<not> hasattr (PyObj mro cls d) k then Some PyNone
                     else getattr (PyObj mro cls d) k))
    \<and> InlineBaseFormAdmin_init compile_rules (PyObj mro cls d) kw =
        (if truthy (getattr_default (PyObj mro cls d2) ''form_rules'' PyNone)
         then (case compile_rules (PyObj mro cls d2)
                     (getattr_default (PyObj mro cls d2) ''form_rules'' PyNone) of
                 Inl e \<Rightarrow> Inl e
               | Inr rs \<Rightarrow> Inr (setattr (PyObj mro cls d2) ''_form_rules'' rs))
         else Inr (setattr (PyObj mro cls d2) ''_form_rules'' PyNone))" ..
  define self2 where "self2 = PyObj mro cls d2"
  have look: "getattr self2 k =
          (case map_of kw k of
             Some v \<Rightarrow> Some v
           | None \<Rightarrow> if k \<in> set ks \<and> \<not> hasattr ?self k then Some PyNone
                     else getattr ?self k)" for k
    unfolding self2_def by (rule both [THEN conjunct1, rule_format])
  have gs: "getattr (setattr self2 k v) k' = (if k' = k then Some v else getattr self2 k')"
    for k v k'
    unfolding self2_def by (rule getattr_setattr_obj)
  let ?fr = "getattr_default self2 ''form_rules'' PyNone"
  have res: "InlineBaseFormAdmin_init compile_rules ?self kw =
        (if truthy ?fr
         then (case compile_rules self2 ?fr of
                 Inl e \<Rightarrow> Inl e
               | Inr rs \<Rightarrow> Inr (setattr self2 ''_form_rules'' rs))
         else Inr (setattr self2 ''_form_rules'' PyNone))"
    unfolding self2_def by (rule both [THEN conjunct2])
  have final: "(\<forall>k \<in> set ks. hasattr obj k)
          \<and> (\<forall>k \<in> set ks. \<not> hasattr ?self k \<and> k \<notin> keys kw \<and> k \<noteq> ''_form_rules''
                \<longrightarrow> getattr obj k = Some PyNone)
          \<and> (\<forall>k. hasattr ?self k \<and> k \<notin> keys kw \<and> k \<noteq> ''_form_rules''
                \<longrightarrow> getattr obj k = getattr ?self k)
          \<and> (\<forall>(k, v) \<in> set kw. k \<noteq> ''_form_rules'' \<longrightarrow> getattr obj k = Some v)
          \<and> (\<forall>k. k \<noteq> ''_form_rules'' \<longrightarrow> getattr obj k = getattr self2 k)
          \<and> getattr obj ''_form_rules'' =
              Some (if truthy (getattr_default obj ''form_rules'' PyNone)
                    then (case compile_rules self2 (getattr_default obj ''form_rules'' PyNone) of
                            Inr rs \<Rightarrow> rs | Inl e \<Rightarrow> PyNone)
                    else PyNone)"
    if ret: "InlineBaseFormAdmin_init compile_rules ?self kw = Inr obj" for obj
  proof -
    from ret res obtain v where obj: "obj = setattr self2 ''_form_rules'' v"
      and v: "v = (if truthy ?fr
                   then (case compile_rules self2 ?fr of Inr rs \<Rightarrow> rs | Inl e \<Rightarrow> PyNone)
                   else PyNone)"
      by (auto split: if_splits sum.splits)
    have g: "getattr obj k = (if k = ''_form_rules'' then Some v else getattr self2 k)" for k
      unfolding obj by (rule gs)
    have same: "getattr_default obj ''form_rules'' PyNone = ?fr"
      by (simp add: getattr_default_def g)
    have has: "hasattr self2 k" if "k \<in> set ks" for k
      using that look [of k] by (auto simp: hasattr_def split: option.splits)
    have 1: "\<forall>k \<in> set ks. hasattr obj k"
      using has by (auto simp: hasattr_def g)
    have 2: "\<forall>k \<in> set ks. \<not> hasattr ?self k \<and> k \<notin> keys kw \<and> k \<noteq> ''_form_rules''
                \<longrightarrow> getattr obj k = Some PyNone"
      by (auto simp: g look keys_map_of)
    have 3: "\<forall>k. hasattr ?self k \<and> k \<notin> keys kw \<and> k \<noteq> ''_form_rules''
                \<longrightarrow> getattr obj k = getattr ?self k"
      by (auto simp: g look keys_map_of)
    have 4: "\<forall>(k, v) \<in> set kw. k \<noteq> ''_form_rules'' \<longrightarrow> getattr obj k = Some v"
      using dist by (auto simp: g look)
    have 5: "\<forall>k. k \<noteq> ''_form_rules'' \<longrightarrow> getattr obj k = getattr self2 k"
      by (simp add: g)
    have 6: "getattr obj ''_form_rules'' =
              Some (if truthy (getattr_default obj ''form_rules'' PyNone)
                    then (case compile_rules self2 (getattr_default obj ''form_rules'' PyNone) of
                            Inr rs \<Rightarrow> rs | Inl e \<Rightarrow> PyNone)
                    else PyNone)"
      unfolding same by (simp add: g v)
    show ?thesis using 1 2 3 4 5 6 by (intro conjI)
  qed
  have a: "\<forall>k. getattr self2 k =
          (case map_of kw k of
             Some v \<Rightarrow> Some v
           | None \<Rightarrow> if k \<in> set ks \<and> \<not> hasattr ?self k then Some PyNone
                     else getattr ?self k)"
    using look by blast
  have c: "\<forall>obj. InlineBaseFormAdmin_init compile_rules ?self kw = Inr obj \<longrightarrow>
          (\<forall>k \<in> set ks. hasattr obj k)
          \<and> (\<forall>k \<in> set ks. \<not> hasattr ?self k \<and> k \<notin> keys kw \<and> k \<noteq> ''_form_rules''
                \<longrightarrow> getattr obj k = Some PyNone)
          \<and> (\<forall>k. hasattr ?self k \<and> k \<notin> keys kw \<and> k \<noteq> ''_form_rules''
                \<longrightarrow> getattr obj k = getattr ?self k)
          \<and> (\<forall>(k, v) \<in> set kw. k \<noteq> ''_form_rules'' \<longrightarrow> getattr obj k = Some v)
          \<and> (\<forall>k. k \<noteq> ''_form_rules'' \<longrightarrow> getattr obj k = getattr self2 k)
          \<and> getattr obj ''_form_rules'' =
              Some (if truthy (getattr_default obj ''form_rules'' PyNone)
                    then (case compile_rules self2 (getattr_default obj ''form_rules'' PyNone) of
                            Inr rs \<Rightarrow> rs | Inl e \<Rightarrow> PyNone)
                    else PyNone)"
    by (intro allI impI) (erule final)
  show ?thesis
    by (rule exI [of _ self2]) (rule conjI [OF a conjI [OF res c]])
qed

lemmas ex_eval = ex_converter_def ex_info_def InlineFormAdmin_init_def InlineBaseFormAdmin_init_def
  new_instance_def InlineFormAdmin_def InlineBaseFormAdmin_def defaults_def defaults_of_def
  name_rules_def hasattr_def lookup_attr_def getattr_default_def keys_def Let_def

text \<open>An empty list of rules is supplied, and no rule set is stored.\<close>

theorem empty_form_rules_counterexample:
  "''form_rules'' \<in> keys [(''form_rules'', PyList [])]
   \<and> (case InlineBaseFormAdmin_init name_rules (new_instance InlineBaseFormAdmin)
              [(''form_rules'', PyList [])] of
         Inr obj \<Rightarrow> getattr obj ''form_rules'' = Some (PyList [])
                    \<and> getattr obj ''_form_rules'' = Some PyNone
       | Inl e \<Rightarrow> False)"
  by (simp add: ex_eval)

text \<open>
  A subclass that declares \<open>form_args\<close>, constructed with columns and rules: the missing
  default becomes \<open>None\<close>, the declared one is kept, the keywords are stored and the rules
  are compiled.
\<close>

theorem descriptor_construction_witness:
  "distinct (map fst ex_kwargs)
   \<and> getattr (PyObj [''MyInline'', ''InlineBaseFormAdmin''] ex_cls_attrs []) ''_defaults''
       = Some (PyList (map PyStr defaults))
   \<and> (\<exists>obj. InlineBaseFormAdmin_init name_rules
               (PyObj [''MyInline'', ''InlineBaseFormAdmin''] ex_cls_attrs []) ex_kwargs = Inr obj
         \<and> getattr obj ''form_base_class'' = Some PyNone
         \<and> getattr obj ''form_args'' = Some (PyDict [(''name'', PyDict [])])
         \<and> getattr obj ''form_columns'' = Some (PyList [PyStr ''name'', PyStr ''email''])
         \<and> getattr obj ''form_rules'' = Some (PyList [PyStr ''name''])
         \<and> getattr obj ''_form_rules'' = Some (RuleSet (PyList [PyStr ''name''])))"
proof -
  let ?self = "PyObj [''MyInline'', ''InlineBaseFormAdmin''] ex_cls_attrs []"
  have h: "distinct (map fst ex_kwargs)"
    by (simp add: ex_kwargs_def)
  have dflt: "getattr ?self ''_defaults'' = Some (PyList (map PyStr defaults))"
    by (simp add: lookup_attr_def ex_cls_attrs_def)
  from descriptor_construction [OF h dflt, of name_rules]
  obtain self2 where all3:
    "(\<forall>k. getattr self2 k =
          (case map_of ex_kwargs k of
             Some v \<Rightarrow> Some v
           | None \<Rightarrow> if k \<in> set defaults \<and> \<not> hasattr ?self k then Some PyNone
                     else getattr ?self k))
    \<and> InlineBaseFormAdmin_init name_rules ?self ex_kwargs =
        (if truthy (getattr_default self2 ''form_rules'' PyNone)
         then (case name_rules self2 (getattr_default self2 ''form_rules'' PyNone) of
                 Inl e \<Rightarrow> Inl e
               | Inr rs \<Rightarrow> Inr (setattr self2 ''_form_rules'' rs))
         else Inr (setattr self2 ''_form_rules'' PyNone))
    \<and> (\<forall>obj. InlineBaseFormAdmin_init name_rules ?self ex_kwargs = Inr obj \<longrightarrow>
          (\<forall>k \<in> set defaults. hasattr obj k)
          \<and> (\<forall>k \<in> set defaults. \<not> hasattr ?self k \<and> k \<notin> keys ex_kwargs \<and> k \<noteq> ''_form_rules''
                \<longrightarrow> getattr obj k = Some PyNone)
          \<and> (\<forall>k. hasattr ?self k \<and> k \<notin> keys ex_kwargs \<and> k \<noteq> ''_form_rules''
                \<longrightarrow> getattr obj k = getattr ?self k)
          \<and> (\<forall>(k, v) \<in> set ex_kwargs. k \<noteq> ''_form_rules'' \<longrightarrow> getattr obj k = Some v)
          \<and> (\<forall>k. k \<noteq> ''_form_rules'' \<longrightarrow> getattr obj k = getattr self2 k)
          \<and> getattr obj ''_form_rules'' =
              Some (if truthy (getattr_default obj ''form_rules'' PyNone)
                    then (case name_rules self2 (getattr_default obj ''form_rules'' PyNone) of
                            Inr rs \<Rightarrow> rs | Inl e \<Rightarrow> PyNone)
                    else PyNone))" ..
  note look = all3 [THEN conjunct1, rule_format]
  note res = all3 [THEN conjunct2, THEN conjunct1]
  note ret = all3 [THEN conjunct2, THEN conjunct2, rule_format]
  have "getattr self2 ''form_rules'' = Some (PyList [PyStr ''name''])"
    by (simp add: look [of "''form_rules''"] ex_kwargs_def)
  then have fr: "getattr_default self2 ''form_rules'' PyNone = PyList [PyStr ''name'']"
    by (simp add: getattr_default_def)
  let ?obj = "setattr self2 ''_form_rules'' (RuleSet (PyList [PyStr ''name'']))"
  have run: "InlineBaseFormAdmin_init name_rules ?self ex_kwargs = Inr ?obj"
    by (simp add: res fr name_rules_def)
  note facts = ret [OF run]
  note all = facts [THEN conjunct2, THEN conjunct1, rule_format]
  note kept = facts [THEN conjunct2, THEN conjunct2, THEN conjunct1, rule_format]
  note over = facts [THEN conjunct2, THEN conjunct2, THEN conjunct2, THEN conjunct1]
  note rules = facts [THEN conjunct2, THEN conjunct2, THEN conjunct2, THEN conjunct2,
      THEN conjunct2]
  have 1: "getattr ?obj ''form_base_class'' = Some PyNone"
    by (rule all)
      (simp_all add: defaults_def hasattr_def lookup_attr_def ex_cls_attrs_def ex_kwargs_def
        keys_def)
  have "getattr ?obj ''form_args'' = getattr ?self ''form_args''"
    by (rule kept)
      (simp add: hasattr_def lookup_attr_def ex_cls_attrs_def ex_kwargs_def keys_def)
  then have 2: "getattr ?obj ''form_args'' = Some (PyDict [(''name'', PyDict [])])"
    by (simp add: lookup_attr_def ex_cls_attrs_def)
  have c: "(''form_columns'', PyList [PyStr ''name'', PyStr ''email'']) \<in> set ex_kwargs"
    and r: "(''form_rules'', PyList [PyStr ''name'']) \<in> set ex_kwargs"
    by (simp_all add: ex_kwargs_def)
  have 3: "getattr ?obj ''form_columns'' = Some (PyList [PyStr ''name'', PyStr ''email''])"
    using bspec [OF over c] by simp
  have 4: "getattr ?obj ''form_rules'' = Some (PyList [PyStr ''name''])"
    using bspec [OF over r] by simp
  have 5: "getattr ?obj ''_form_rules'' = Some (RuleSet (PyList [PyStr ''name'']))"
    by (simp only: rules getattr_default_def 4) (simp add: name_rules_def)
  have "\<exists>obj. InlineBaseFormAdmin_init name_rules ?self ex_kwargs = Inr obj
         \<and> getattr obj ''form_base_class'' = Some PyNone
         \<and> getattr obj ''form_args'' = Some (PyDict [(''name'', PyDict [])])
         \<and> getattr obj ''form_columns'' = Some (PyList [PyStr ''name'', PyStr ''email''])
         \<and> getattr obj ''form_rules'' = Some (PyList [PyStr ''name''])
         \<and> getattr obj ''_form_rules'' = Some (RuleSet (PyList [PyStr ''name'']))"
    using run 1 2 3 4 5 by (intro exI [of _ ?obj] conjI)
  with h dflt show ?thesis by (intro conjI)
qed

text \<open>
  Claim C7, as amended. \<open>get_info\<close> sends every tuple to the constructor of
  \<open>form_admin_class\<close>. A tuple with fewer than two elements raises \<open>IndexError\<close>; a second
  element that is not a dictionary, or a dictionary with the key \<open>self\<close> or \<open>model\<close>, raises
  \<open>TypeError\<close>. Otherwise the first two elements are the model and the options of a new
  descriptor of \<open>form_admin_class\<close>: the call returns it with \<open>model\<close> and every option
  stored, unless the rule compiler rejects a truthy \<open>form_rules\<close>, whose exception then
  leaves \<open>get_info\<close>. An instance of \<open>form_admin_class\<close> is returned as it is; anything that
  is neither a tuple nor such an instance, a model class for example, yields \<open>None\<close>. The
  claim as written promises \<open>None\<close> for every input that is not a pair or a descriptor, and a
  descriptor for every pair.
\<close>

theorem get_info_shapes:
  "(length xs < 2 \<longrightarrow> get_info compile_rules self (PyTuple xs) = Inl IndexError)
   \<and> ((\<forall>kw. options \<noteq> PyDict kw)
        \<longrightarrow> get_info compile_rules self (PyTuple (model # options # rest)) = Inl TypeError)
   \<and> (''self'' \<in> keys kw \<or> ''model'' \<in> keys kw
        \<longrightarrow> get_info compile_rules self (PyTuple (model # PyDict kw # rest)) = Inl TypeError)
   \<and> (''self'' \<notin> keys kw \<and> ''model'' \<notin> keys kw \<and> distinct (map fst kw)
       \<and> map_of (cls_attrs (form_admin_class self)) ''_defaults'' = Some (PyList (map PyStr ks))
        \<longrightarrow> (\<exists>self2.
              isinstance self2 (form_admin_class self)
            \<and> (\<forall>k. getattr self2 k =
                  (case map_of kw k of
                     Some v \<Rightarrow> Some v
                   | None \<Rightarrow>
                       if k = ''model'' then Some model
                       else if k \<in> set ks \<and> map_of (cls_attrs (form_admin_class self)) k = None
                            then Some PyNone
                            else map_of (cls_attrs (form_admin_class self)) k))
            \<and> get_info compile_rules self (PyTuple (model # PyDict kw # rest)) =
                (if truthy (getattr_default self2 ''form_rules'' PyNone)
                 then (case compile_rules self2 (getattr_default self2 ''form_rules'' PyNone) of
                         Inl e \<Rightarrow> Inl e
                       | Inr rs \<Rightarrow> Inr (setattr self2 ''_form_rules'' rs))
                 else Inr (setattr self2 ''_form_rules'' PyNone))
            \<and> (\<forall>obj. get_info compile_rules self (PyTuple (model # PyDict kw # rest)) = Inr obj
                  \<longrightarrow> isinstance obj (form_admin_class self)
                      \<and> getattr obj ''model'' = Some model
                      \<and> (\<forall>(k, v) \<in> set kw. k \<noteq> ''_form_rules'' \<longrightarrow> getattr obj k = Some v)
                      \<and> (\<forall>k. k \<noteq> ''_form_rules'' \<longrightarrow> getattr obj k = getattr self2 k))))
   \<and> (isinstance p (form_admin_class self) \<longrightarrow> get_info compile_rules self p = Inr p)
   \<and> ((\<forall>xs. p \<noteq> PyTuple xs) \<and> \<not> isinstance p (form_admin_class self)
        \<longrightarrow> get_info compile_rules self p = Inr PyNone)
   \<and> get_info compile_rules self (PyClass m) = Inr PyNone"
proof -
  let ?c = "form_admin_class self"
  let ?mro = "cls_name ?c # cls_ancestors ?c"
  let ?cls = "cls_attrs ?c"
  let ?self0 = "PyObj ?mro ?cls [(''model'', model)]"
  let ?call = "get_info compile_rules self (PyTuple (model # PyDict kw # rest))"
  have short: "get_info compile_rules self (PyTuple xs) = Inl IndexError" if "length xs < 2"
  proof (cases xs)
    case Nil
    then show ?thesis by (simp add: get_info_def)
  next
    case (Cons x ys)
    with that have "ys = []" by simp
    with Cons show ?thesis by (simp add: get_info_def)
  qed
  have nomap: "get_info compile_rules self (PyTuple (model # options # rest)) = Inl TypeError"
    if "\<forall>kw. options \<noteq> PyDict kw"
    using that by (cases options) (simp_all add: get_info_def call_form_admin_class_def)
  have clash: "?call = Inl TypeError" if "''self'' \<in> keys kw \<or> ''model'' \<in> keys kw"
    using that by (auto simp: get_info_def call_form_admin_class_def)
  have pair: "\<exists>self2.
              isinstance self2 ?c
            \<and> (\<forall>k. getattr self2 k =
                  (case map_of kw k of
                     Some v \<Rightarrow> Some v
                   | None \<Rightarrow>
                       if k = ''model'' then Some model
                       else if k \<in> set ks \<and> map_of ?cls k = None then Some PyNone
                            else map_of ?cls k))
            \<and> ?call =
                (if truthy (getattr_default self2 ''form_rules'' PyNone)
                 then (case compile_rules self2 (getattr_default self2 ''form_rules'' PyNone) of
                         Inl e \<Rightarrow> Inl e
                       | Inr rs \<Rightarrow> Inr (setattr self2 ''_form_rules'' rs))
                 else Inr (setattr self2 ''_form_rules'' PyNone))
            \<and> (\<forall>obj. ?call = Inr obj
                  \<longrightarrow> isinstance obj ?c
                      \<and> getattr obj ''model'' = Some model
                      \<and> (\<forall>(k, v) \<in> set kw. k \<noteq> ''_form_rules'' \<longrightarrow> getattr obj k = Some v)
                      \<and> (\<forall>k. k \<noteq> ''_form_rules'' \<longrightarrow> getattr obj k = getattr self2 k))"
    if k1: "''self'' \<notin> keys kw" and k2: "''model'' \<notin> keys kw" and dist: "distinct (map fst kw)"
      and dflt: "map_of ?cls ''_defaults'' = Some (PyList (map PyStr ks))"
  proof -
    have call: "?call = InlineBaseFormAdmin_init compile_rules ?self0 kw"
      using k1 k2
      by (simp add: get_info_def call_form_admin_class_def InlineFormAdmin_init_def
          new_instance_def)
    have g0: "getattr ?self0 k = (if k = ''model'' then Some model else map_of ?cls k)" for k
      by (simp add: lookup_attr_def)
    have d0: "getattr ?self0 ''_defaults'' = Some (PyList (map PyStr ks))"
      by (simp only: g0) (simp add: dflt)
    from constructor_result [OF dist d0, of compile_rules]
    obtain d2 where both:
      "(\<forall>k. getattr (PyObj ?mro ?cls d2) k =
            (case map_of kw k of
               Some v \<Rightarrow> Some v
             | None \<Rightarrow> if k \<in> set ks \<and> \<not> hasattr ?self0 k then Some PyNone
                       else getattr ?self0 k))
      \<and> InlineBaseFormAdmin_init compile_rules ?self0 kw =
          (if truthy (getattr_default (PyObj ?mro ?cls d2) ''form_rules'' PyNone)
           then (case compile_rules (PyObj ?mro ?cls d2)
                       (getattr_default (PyObj ?mro ?cls d2) ''form_rules'' PyNone) of
                   Inl e \<Rightarrow> Inl e
                 | Inr rs \<Rightarrow> Inr (setattr (PyObj ?mro ?cls d2) ''_form_rules'' rs))
           else Inr (setattr (PyObj ?mro ?cls d2) ''_form_rules'' PyNone))" ..
    define self2 where "self2 = PyObj ?mro ?cls d2"
    have inst2: "isinstance self2 ?c"
      by (simp add: self2_def)
    have gs: "getattr (setattr self2 k v) k' = (if k' = k then Some v else getattr self2 k')"
      for k v k'
      unfolding self2_def by (rule getattr_setattr_obj)
    have is_set: "isinstance (setattr self2 k v) ?c" for k v
      by (simp add: self2_def)
    have "getattr self2 k =
            (case map_of kw k of
               Some v \<Rightarrow> Some v
             | None \<Rightarrow> if k \<in> set ks \<and> \<not> hasattr ?self0 k then Some PyNone
                       else getattr ?self0 k)" for k
      unfolding self2_def by (rule both [THEN conjunct1, rule_format])
    then have look: "getattr self2 k =
                  (case map_of kw k of
                     Some v \<Rightarrow> Some v
                   | None \<Rightarrow>
                       if k = ''model'' then Some model
                       else if k \<in> set ks \<and> map_of ?cls k = None then Some PyNone
                            else map_of ?cls k)" for k
      by (simp only: hasattr_def g0) (auto split: option.splits)
    let ?fr = "getattr_default self2 ''form_rules'' PyNone"
    have res: "?call =
                (if truthy ?fr
                 then (case compile_rules self2 ?fr of
                         Inl e \<Rightarrow> Inl e
                       | Inr rs \<Rightarrow> Inr (setattr self2 ''_form_rules'' rs))
                 else Inr (setattr self2 ''_form_rules'' PyNone))"
      unfolding call self2_def by (rule both [THEN conjunct2])
    have nomodel: "map_of kw ''model'' = None"
      using k2 by (simp add: keys_map_of)
    have final: "isinstance obj ?c
                      \<and> getattr obj ''model'' = Some model
                      \<and> (\<forall>(k, v) \<in> set kw. k \<noteq> ''_form_rules'' \<longrightarrow> getattr obj k = Some v)
                      \<and> (\<forall>k. k \<noteq> ''_form_rules'' \<longrightarrow> getattr obj k = getattr self2 k)"
      if ret: "?call = Inr obj" for obj
    proof -
      from ret res obtain v where obj: "obj = setattr self2 ''_form_rules'' v"
        by (auto split: if_splits sum.splits)
      have g: "getattr obj k = (if k = ''_form_rules'' then Some v else getattr self2 k)" for k
        unfolding obj by (rule gs)
      have 1: "isinstance obj ?c" unfolding obj by (rule is_set)
      have 2: "getattr obj ''model'' = Some model"
        by (simp add: g look nomodel)
      have 3: "\<forall>(k, v) \<in> set kw. k \<noteq> ''_form_rules'' \<longrightarrow> getattr obj k = Some v"
        using dist by (auto simp: g look)
      have 4: "\<forall>k. k \<noteq> ''_form_rules'' \<longrightarrow> getattr obj k = getattr self2 k"
        by (simp add: g)
      show ?thesis using 1 2 3 4 by (intro conjI)
    qed
    have a: "\<forall>k. getattr self2 k =
                  (case map_of kw k of
                     Some v \<Rightarrow> Some v
                   | None \<Rightarrow>
                       if k = ''model'' then Some model
                       else if k \<in> set ks \<and> map_of ?cls k = None then Some PyNone
                            else map_of ?cls k)"
      using look by blast
    have c: "\<forall>obj. ?call = Inr obj
                  \<longrightarrow> isinstance obj ?c
                      \<and> getattr obj ''model'' = Some model
                      \<and> (\<forall>(k, v) \<in> set kw. k \<noteq> ''_form_rules'' \<longrightarrow> getattr obj k = Some v)
                      \<and> (\<forall>k. k \<noteq> ''_form_rules'' \<longrightarrow> getattr obj k = getattr self2 k)"
      by (intro allI impI) (erule final)
    show ?thesis
      by (rule exI [of _ self2]) (rule conjI [OF inst2 conjI [OF a conjI [OF res c]]])
  qed
  have inst: "get_info compile_rules self p = Inr p" if "isinstance p ?c"
    using that by (cases p) (simp_all add: get_info_def)
  have other: "get_info compile_rules self p = Inr PyNone"
    if "(\<forall>xs. p \<noteq> PyTuple xs) \<and> \<not> isinstance p ?c"
    using that by (cases p) (simp_all add: get_info_def)
  have cls: "get_info compile_rules self (PyClass m) = Inr PyNone"
    by (simp add: get_info_def)
  show ?thesis
  proof (intro conjI impI)
    assume "length xs < 2"
    then show "get_info compile_rules self (PyTuple xs) = Inl IndexError" by (rule short)
  next
    assume "\<forall>kw. options \<noteq> PyDict kw"
    then show "get_info compile_rules self (PyTuple (model # options # rest)) = Inl TypeError"
      by (rule nomap)
  next
    assume "''self'' \<in> keys kw \<or> ''model'' \<in> keys kw"
    then show "?call = Inl TypeError" by (rule clash)
  next
    assume "''self'' \<notin> keys kw \<and> ''model'' \<notin> keys kw \<and> distinct (map fst kw)
       \<and> map_of ?cls ''_defaults'' = Some (PyList (map PyStr ks))"
    then have "''self'' \<notin> keys kw" "''model'' \<notin> keys kw" "distinct (map fst kw)"
      "map_of ?cls ''_defaults'' = Some (PyList (map PyStr ks))"
      by simp_all
    then show "\<exists>self2.
              isinstance self2 ?c
            \<and> (\<forall>k. getattr self2 k =
                  (case map_of kw k of
                     Some v \<Rightarrow> Some v
                   | None \<Rightarrow>
                       if k = ''model'' then Some model
                       else if k \<in> set ks \<and> map_of ?cls k = None then Some PyNone
                            else map_of ?cls k))
            \<and> ?call =
                (if truthy (getattr_default self2 ''form_rules'' PyNone)
                 then (case compile_rules self2 (getattr_default self2 ''form_rules'' PyNone) of
                         Inl e \<Rightarrow> Inl e
                       | Inr rs \<Rightarrow> Inr (setattr self2 ''_form_rules'' rs))
                 else Inr (setattr self2 ''_form_rules'' PyNone))
            \<and> (\<forall>obj. ?call = Inr obj
                  \<longrightarrow> isinstance obj ?c
                      \<and> getattr obj ''model'' = Some model
                      \<and> (\<forall>(k, v) \<in> set kw. k \<noteq> ''_form_rules'' \<longrightarrow> getattr obj k = Some v)
                      \<and> (\<forall>k. k \<noteq> ''_form_rules'' \<longrightarrow> getattr obj k = getattr self2 k))"
      by (rule pair)
  next
    assume "isinstance p ?c"
    then show "get_info compile_rules self p = Inr p" by (rule inst)
  next
    assume "(\<forall>xs. p \<noteq> PyTuple xs) \<and> \<not> isinstance p ?c"
    then show "get_info compile_rules self p = Inr PyNone" by (rule other)
  next
    show "get_info compile_rules self (PyClass m) = Inr PyNone" by (rule cls)
  qed
qed

text \<open>A one-element tuple, and a pair whose options name the parameter \<open>model\<close>.\<close>

theorem malformed_tuple_counterexample:
  "get_info name_rules ex_converter (PyTuple [PyClass ''UserInfo'']) = Inl IndexError
   \<and> get_info name_rules ex_converter (PyTuple [PyClass ''UserInfo'']) \<noteq> Inr PyNone
   \<and> get_info name_rules ex_converter
        (PyTuple [PyClass ''UserInfo'', PyDict [(''model'', PyClass ''Post'')]]) = Inl TypeError"
  by (simp add: get_info_def call_form_admin_class_def keys_def)

text \<open>
  The shapes at concrete inputs: tuples that raise, a pair that yields a descriptor, a pair
  whose rules are rejected, a descriptor, and a string.
\<close>

theorem get_info_shapes_witness:
  "length [PyClass ''UserInfo''] < 2
   \<and> get_info name_rules ex_converter (PyTuple [PyClass ''UserInfo'']) = Inl IndexError
   \<and> get_info name_rules ex_converter (PyTuple [PyClass ''UserInfo'', PyStr ''email''])
       = Inl TypeError
   \<and> ''self'' \<notin> keys [(''form_columns'', PyList [PyStr ''email''])]
   \<and> ''model'' \<notin> keys [(''form_columns'', PyList [PyStr ''email''])]
   \<and> distinct (map fst [(''form_columns'', PyList [PyStr ''email''])])
   \<and> map_of (cls_attrs (form_admin_class ex_converter)) ''_defaults''
       = Some (PyList (map PyStr defaults))
   \<and> get_info name_rules ex_converter
        (PyTuple [PyClass ''UserInfo'', PyDict [(''form_columns'', PyList [PyStr ''email''])]])
       = Inr (ex_info [(''form_columns'', PyList [PyStr ''email''])])
   \<and> isinstance (ex_info [(''form_columns'', PyList [PyStr ''email''])])
        (form_admin_class ex_converter)
   \<and> getattr (ex_info [(''form_columns'', PyList [PyStr ''email''])]) ''model''
       = Some (PyClass ''UserInfo'')
   \<and> getattr (ex_info [(''form_columns'', PyList [PyStr ''email''])]) ''form_columns''
       = Some (PyList [PyStr ''email''])
   \<and> getattr (ex_info [(''form_columns'', PyList [PyStr ''email''])]) ''_form_rules''
       = Some PyNone
   \<and> get_info name_rules ex_converter
        (PyTuple [PyClass ''UserInfo'', PyDict [(''form_rules'', PyList [PyNone])]])
       = Inl TypeError
   \<and> isinstance (ex_info []) (form_admin_class ex_converter)
   \<and> get_info name_rules ex_converter (ex_info []) = Inr (ex_info [])
   \<and> (\<forall>xs. PyStr ''UserInfo'' \<noteq> PyTuple xs)
   \<and> \<not> isinstance (PyStr ''UserInfo'') (form_admin_class ex_converter)
   \<and> get_info name_rules ex_converter (PyStr ''UserInfo'') = Inr PyNone"
proof -
  let ?kw = "[(''form_columns'', PyList [PyStr ''email''])]"
  let ?pair = "PyTuple [PyClass ''UserInfo'', PyDict ?kw]"
  note short = get_info_shapes [THEN conjunct1, rule_format]
  note nomap = get_info_shapes [THEN conjunct2, THEN conjunct1, rule_format]
  note pair = get_info_shapes [THEN conjunct2, THEN conjunct2, THEN conjunct2,
      THEN conjunct1, rule_format]
  note inst = get_info_shapes [THEN conjunct2, THEN conjunct2, THEN conjunct2,
      THEN conjunct2, THEN conjunct1, rule_format]
  note other = get_info_shapes [THEN conjunct2, THEN conjunct2, THEN conjunct2,
      THEN conjunct2, THEN conjunct2, THEN conjunct1, rule_format]
  have l: "length [PyClass ''UserInfo''] < 2" by simp
  have 1: "get_info name_rules ex_converter (PyTuple [PyClass ''UserInfo'']) = Inl IndexError"
    by (rule short [OF l])
  have 2: "get_info name_rules ex_converter (PyTuple [PyClass ''UserInfo'', PyStr ''email''])
       = Inl TypeError"
    by (rule nomap) simp
  have k1: "''self'' \<notin> keys ?kw" and k2: "''model'' \<notin> keys ?kw"
    and dist: "distinct (map fst ?kw)"
    by (simp_all add: keys_def)
  have dflt: "map_of (cls_attrs (form_admin_class ex_converter)) ''_defaults''
       = Some (PyList (map PyStr defaults))"
    by (simp add: ex_converter_def InlineFormAdmin_def)
  have run: "get_info name_rules ex_converter ?pair = Inr (ex_info ?kw)"
    by (simp add: ex_eval get_info_def call_form_admin_class_def)
  have hyps: "''self'' \<notin> keys ?kw \<and> ''model'' \<notin> keys ?kw \<and> distinct (map fst ?kw)
       \<and> map_of (cls_attrs (form_admin_class ex_converter)) ''_defaults''
           = Some (PyList (map PyStr defaults))"
    using k1 k2 dist dflt by (intro conjI)
  from pair [where kw = ?kw and self = ex_converter and ks = defaults
      and model = "PyClass ''UserInfo''" and compile_rules = name_rules and rest = "[]",
      OF hyps]
  obtain self2 where ret: "\<forall>obj. get_info name_rules ex_converter ?pair = Inr obj
                  \<longrightarrow> isinstance obj (form_admin_class ex_converter)
                      \<and> getattr obj ''model'' = Some (PyClass ''UserInfo'')
                      \<and> (\<forall>(k, v) \<in> set ?kw. k \<noteq> ''_form_rules'' \<longrightarrow> getattr obj k = Some v)
                      \<and> (\<forall>k. k \<noteq> ''_form_rules'' \<longrightarrow> getattr obj k = getattr self2 k)"
    by (elim exE conjE) blast
  note facts = ret [rule_format, OF run]
  have 3: "isinstance (ex_info ?kw) (form_admin_class ex_converter)"
    by (rule facts [THEN conjunct1])
  have 4: "getattr (ex_info ?kw) ''model'' = Some (PyClass ''UserInfo'')"
    by (rule facts [THEN conjunct2, THEN conjunct1])
  have 5: "getattr (ex_info ?kw) ''form_columns'' = Some (PyList [PyStr ''email''])"
    using facts [THEN conjunct2, THEN conjunct2, THEN conjunct1] by simp
  have 6: "getattr (ex_info ?kw) ''_form_rules'' = Some PyNone"
    by (simp add: ex_eval)
  have 7: "get_info name_rules ex_converter
        (PyTuple [PyClass ''UserInfo'', PyDict [(''form_rules'', PyList [PyNone])]])
       = Inl TypeError"
    by (simp add: ex_eval get_info_def call_form_admin_class_def)
  have 8: "isinstance (ex_info []) (form_admin_class ex_converter)"
    by (simp add: ex_eval)
  have 9: "get_info name_rules ex_converter (ex_info []) = Inr (ex_info [])"
    by (rule inst [OF 8])
  have 10: "\<forall>xs. PyStr ''UserInfo'' \<noteq> PyTuple xs" by simp
  have 11: "\<not> isinstance (PyStr ''UserInfo'') (form_admin_class ex_converter)" by simp
  have 12: "get_info name_rules ex_converter (PyStr ''UserInfo'') = Inr PyNone"
    by (rule other [OF conjI [OF 10 11]])
  show ?thesis
    using l 1 2 k1 k2 dist dflt run 3 4 5 6 7 8 9 10 11 12 by (intro conjI)
qed

text \<open>
  Claim C6, as amended. \<open>get_label\<close> returns \<open>form_label\<close> of the descriptor when it is
  truthy; otherwise the entry of \<open>column_labels\<close> for the name, when the view has such a
  mapping and the name is in it; otherwise \<open>None\<close>. The claim as written returns
  \<open>form_label\<close> whenever it is set; an empty string is set and is passed over.
\<close>

theorem get_label_resolution:
  "(truthy (getattr_default info ''form_label'' PyNone)
      \<longrightarrow> get_label self info name = getattr_default info ''form_label'' PyNone)
   \<and> (\<not> truthy (getattr_default info ''form_label'' PyNone)
       \<and> column_labels (view self) = Some labels \<and> map_of labels name = Some v
      \<longrightarrow> get_label self info name = v)
   \<and> (\<not> truthy (getattr_default info ''form_label'' PyNone)
       \<and> (column_labels (view self) = None
           \<or> (column_labels (view self) = Some labels \<and> name \<notin> keys labels))
      \<longrightarrow> get_label self info name = PyNone)"
proof (intro conjI impI)
  assume "truthy (getattr_default info ''form_label'' PyNone)"
  then show "get_label self info name = getattr_default info ''form_label'' PyNone"
    by (simp add: get_label_def)
next
  assume h: "\<not> truthy (getattr_default info ''form_label'' PyNone)
       \<and> column_labels (view self) = Some labels \<and> map_of labels name = Some v"
  then have "name \<in> keys labels" "labels \<noteq> []"
    by (auto simp: keys_map_of)
  with h show "get_label self info name = v"
    by (simp add: get_label_def)
next
  assume "\<not> truthy (getattr_default info ''form_label'' PyNone)
       \<and> (column_labels (view self) = None
           \<or> (column_labels (view self) = Some labels \<and> name \<notin> keys labels))"
  then show "get_label self info name = PyNone"
    by (auto simp: get_label_def)
qed

text \<open>A descriptor whose \<open>form_label\<close> is the empty string.\<close>

theorem empty_form_label_counterexample:
  "getattr (ex_info [(''form_label'', PyStr '''')]) ''form_label'' = Some (PyStr '''')
   \<and> get_label ex_converter (ex_info [(''form_label'', PyStr '''')]) ''email'' = PyStr ''E-mail''
   \<and> get_label ex_converter (ex_info [(''form_label'', PyStr '''')]) ''email'' \<noteq> PyStr ''''"
  by (simp add: ex_eval get_label_def)

text \<open>The view with \<open>column_labels = {"email": "E-mail"}\<close>, with and without an override.\<close>

theorem get_label_resolution_witness:
  "get_label ex_converter (ex_info []) ''email'' = PyStr ''E-mail''
   \<and> get_label ex_converter (ex_info [(''form_label'', PyStr ''Custom'')]) ''email''
       = PyStr ''Custom''
   \<and> get_label ex_converter (ex_info []) ''name'' = PyNone"
  using get_label_resolution [of "ex_info []" ex_converter "''email''"
      "[(''email'', PyStr ''E-mail'')]" "PyStr ''E-mail''"]
    get_label_resolution [of "ex_info [(''form_label'', PyStr ''Custom'')]" ex_converter
      "''email''" "[(''email'', PyStr ''E-mail'')]" "PyStr ''E-mail''"]
    get_label_resolution [of "ex_info []" ex_converter "''name''"
      "[(''email'', PyStr ''E-mail'')]" "PyStr ''E-mail''"]
  by (simp add: ex_eval)

text \<open>
  Claim C5. The wrapper builds its warning from \<open>self.model\<close>, which only
  \<open>InlineFormAdmin\<close> sets. For a descriptor of the base class whose hook takes two
  parameters, the wrapper raises \<open>AttributeError\<close> before it warns or retries.
\<close>

theorem compat_wrapper_without_model:
  "\<exists>self. InlineBaseFormAdmin_init compile_rules (new_instance InlineBaseFormAdmin) [] = Inr self
     \<and> on_model_change_compat str_of self (Hook 2 (\<lambda>as. None)) form model is_created
         = (Some AttributeError, [])"
  by (simp add: on_model_change_compat_def call_hook_def InlineBaseFormAdmin_init_def
      new_instance_def InlineBaseFormAdmin_def defaults_def defaults_of_def hasattr_def
      lookup_attr_def getattr_default_def Let_def)

text \<open>With a \<open>model\<close> attribute that the format accepts, the wrapper warns and retries.\<close>

lemma compat_wrapper_with_model:
  assumes "arity f = 2" "getattr self ''model'' = Some m" "percent_s str_of m = Inr s"
  shows "on_model_change_compat str_of self f form model is_created =
     (body f [form, model],
      [Warned (s @ ''.on_model_change() now accepts third ''
                 @ ''parameter is_created. Please update your code''),
       Called [form, model]])"
  using assms by (simp add: on_model_change_compat_def call_hook_def)

lemma compat_wrapper_tuple_model:
  assumes "arity f = 2" "getattr self ''model'' = Some (PyTuple ys)" "length ys \<noteq> 1"
  shows "on_model_change_compat str_of self f form model is_created = (Some TypeError, [])"
proof -
  have "percent_s str_of (PyTuple ys) = Inl TypeError"
    using assms(3) by (cases ys rule: list.exhaust [case_names Nil Cons])
      (auto simp: percent_s_def split: list.splits)
  then show ?thesis
    using assms(1,2) by (simp add: on_model_change_compat_def call_hook_def)
qed

end
